theory Spec2Isabelle
  imports Main "HOL-Library.Word" "HOL-Library.AList" "HOL-Library.Sublist"
    "HOL-Library.Product_Lexorder" "HOL-Library.Multiset"
begin

section \<open>Errors\<close>

text \<open>
  Every way a request handler of \<^verbatim>\<open>src/main.py\<close> can stop without a response is a value:
  \<^item> \<open>Unavailable\<close>: \<^verbatim>\<open>HTTPException(500, "Database not available")\<close>, raised when the
    module-level handle \<^verbatim>\<open>db\<close> is \<^verbatim>\<open>None\<close>;
  \<^item> \<open>NotFound\<close>: \<^verbatim>\<open>HTTPException(404, "Application not found")\<close>;
  \<^item> \<open>InvalidId\<close>: \<^verbatim>\<open>bson.errors.InvalidId\<close>, raised by \<^verbatim>\<open>ObjectId(app_id)\<close>;
  \<^item> \<open>ValidationError\<close>: raised by the constructor of a pydantic model whose argument
    is outside a \<^verbatim>\<open>Literal[...]\<close>;
  \<^item> \<open>KeyError\<close>: \<^verbatim>\<open>doc.pop("_id")\<close> on a dictionary without that key;
  \<^item> \<open>DuplicateKeyError\<close> and \<open>WriteError\<close>: raised by the document store when an
    inserted \<^verbatim>\<open>_id\<close> is taken, or when \<^verbatim>\<open>$push\<close> meets a field that is not an array;
  \<^item> \<open>Unsupported\<close>: \<^verbatim>\<open>str()\<close> of a list or of a datetime, whose rendering is not
    reproduced here (no identifier of the store has such a type).
\<close>

datatype error =
    Unavailable | NotFound | InvalidId | ValidationError | KeyError
  | DuplicateKeyError | WriteError | Unsupported

section \<open>Object identifiers\<close>

text \<open>
  A \<^verbatim>\<open>bson.ObjectId\<close> is its binary value. \<^verbatim>\<open>str(oid)\<close> is the lower-case
  hexadecimal rendering of the bytes; \<^verbatim>\<open>ObjectId(s)\<close> accepts a string of length 24
  that \<^verbatim>\<open>bytes.fromhex\<close> accepts (pairs of hexadecimal digits of either case, ASCII
  white space skipped before a pair) and raises \<^verbatim>\<open>InvalidId\<close> otherwise.
\<close>

type_synonym byte = "8 word"
type_synonym oid = "byte list"

definition hexdigit :: "nat \<Rightarrow> char" where
  "hexdigit n = (if n < 10 then char_of (48 + n) else char_of (87 + n))"

definition hexval :: "char \<Rightarrow> nat option" where
  "hexval c =
     (let n = (of_char c :: nat) in
      if 48 \<le> n \<and> n \<le> 57 then Some (n - 48)
      else if 97 \<le> n \<and> n \<le> 102 then Some (n - 87)
      else if 65 \<le> n \<and> n \<le> 70 then Some (n - 55)
      else None)"

definition is_space :: "char \<Rightarrow> bool" where
  "is_space c = ((of_char c :: nat) \<in> {9, 10, 11, 12, 13, 32})"

definition hexlify :: "byte list \<Rightarrow> string" where
  "hexlify bs = concat (map (\<lambda>b. [hexdigit (unat b div 16), hexdigit (unat b mod 16)]) bs)"

fun fromhex :: "string \<Rightarrow> byte list option" where
  "fromhex [] = Some []"
| "fromhex [c] = (if is_space c then Some [] else None)"
| "fromhex (c # d # cs) =
     (if is_space c then fromhex (d # cs)
      else (case (hexval c, hexval d) of
              (Some hi, Some lo) \<Rightarrow> map_option ((#) (of_nat (16 * hi + lo))) (fromhex cs)
            | _ \<Rightarrow> None))"

definition str_oid :: "oid \<Rightarrow> string" where
  "str_oid i = hexlify i"

definition ObjectId :: "string \<Rightarrow> error + oid" where
  "ObjectId s =
     (if length s = 24
      then (case fromhex s of Some bs \<Rightarrow> Inr bs | None \<Rightarrow> Inl InvalidId)
      else Inl InvalidId)"

section \<open>Values and documents\<close>

text \<open>
  The values the handlers read and write: \<^verbatim>\<open>None\<close>, booleans, strings, lists, object
  identifiers and datetimes (a point on the time line). A document is a Python
  dictionary with string keys, kept as an association list in insertion order:
  \<^verbatim>\<open>d.get(k, v)\<close> is \<open>dict_get\<close>, \<^verbatim>\<open>d[k] = v\<close> is \<open>AList.update\<close> (in place when the
  key exists, at the end otherwise) and \<^verbatim>\<open>d.pop(k)\<close> is \<open>AList.delete\<close> after a look-up.
\<close>

datatype val =
    VNone | VBool bool | VStr string | VList "val list" | VOid oid | VTime int

type_synonym doc = "(string \<times> val) list"

definition dict_get :: "doc \<Rightarrow> string \<Rightarrow> val \<Rightarrow> val" where
  "dict_get d k dflt = (case map_of d k of Some v \<Rightarrow> v | None \<Rightarrow> dflt)"

fun py_str :: "val \<Rightarrow> string option" where
  "py_str VNone = Some ''None''"
| "py_str (VBool b) = Some (if b then ''True'' else ''False'')"
| "py_str (VStr s) = Some s"
| "py_str (VOid i) = Some (str_oid i)"
| "py_str (VList xs) = None"
| "py_str (VTime t) = None"

section \<open>The document store\<close>

text \<open>
  A collection is the list of its documents in insertion order. The store gives every
  document an \<^verbatim>\<open>_id\<close>, here always an object identifier, so a stored document is the
  pair of its identifier and its other fields, and \<open>stored_doc\<close> is the dictionary a
  query hands back. The database maps collection names to collections; the module-level
  \<^verbatim>\<open>db\<close> of the handlers is \<open>None\<close> or such a database.
\<close>

type_synonym collection = "(oid \<times> doc) list"
type_synonym database = "string \<Rightarrow> collection"
type_synonym state = "database option"

definition stored_doc :: "oid \<times> doc \<Rightarrow> doc" where
  "stored_doc p = (''_id'', VOid (fst p)) # snd p"

definition ids :: "collection \<Rightarrow> oid set" where
  "ids c = fst ` set c"

text \<open>\<^verbatim>\<open>insert_one\<close>: the identifier generated for the new document is an argument; the
  store refuses an identifier that the collection already holds.\<close>

definition insert_one :: "collection \<Rightarrow> doc \<Rightarrow> oid \<Rightarrow> error + collection" where
  "insert_one c body new_id =
     (if new_id \<in> ids c then Inl DuplicateKeyError else Inr (c @ [(new_id, body)]))"

text \<open>\<^verbatim>\<open>find_one({"_id": i})\<close>: the first document with that identifier, or \<^verbatim>\<open>None\<close>.\<close>

definition find_one :: "collection \<Rightarrow> oid \<Rightarrow> doc option" where
  "find_one c i = map_option stored_doc (find (\<lambda>p. fst p = i) c)"

text \<open>
  An update document with its \<^verbatim>\<open>$set\<close> and \<^verbatim>\<open>$push\<close> parts. \<^verbatim>\<open>$set\<close> writes each field;
  \<^verbatim>\<open>$push\<close> appends to an array, creates the array when the field is absent and is a
  write error on any other value.
\<close>

record update_spec =
  upd_set :: "(string \<times> val) list"
  upd_push :: "(string \<times> val) list"

fun apply_set :: "(string \<times> val) list \<Rightarrow> doc \<Rightarrow> doc" where
  "apply_set [] d = d"
| "apply_set ((k, v) # kvs) d = apply_set kvs (AList.update k v d)"

fun apply_push :: "(string \<times> val) list \<Rightarrow> doc \<Rightarrow> error + doc" where
  "apply_push [] d = Inr d"
| "apply_push ((k, v) # kvs) d =
     (case map_of d k of
        None \<Rightarrow> apply_push kvs (AList.update k (VList [v]) d)
      | Some (VList xs) \<Rightarrow> apply_push kvs (AList.update k (VList (xs @ [v])) d)
      | Some _ \<Rightarrow> Inl WriteError)"

definition apply_update :: "update_spec \<Rightarrow> doc \<Rightarrow> error + doc" where
  "apply_update u d = apply_push (upd_push u) (apply_set (upd_set u) d)"

text \<open>\<^verbatim>\<open>update_one({"_id": i}, u)\<close>: the first document with that identifier is updated;
  nothing happens when there is none.\<close>

fun update_one :: "collection \<Rightarrow> oid \<Rightarrow> update_spec \<Rightarrow> error + collection" where
  "update_one [] i u = Inr []"
| "update_one (p # ps) i u =
     (if fst p = i
      then (case apply_update u (snd p) of
              Inl e \<Rightarrow> Inl e
            | Inr d \<Rightarrow> Inr ((fst p, d) # ps))
      else (case update_one ps i u of
              Inl e \<Rightarrow> Inl e
            | Inr ps' \<Rightarrow> Inr (p # ps')))"

text \<open>
  A query \<^verbatim>\<open>{k: s}\<close> with a string matches a document whose field \<open>k\<close> is that string
  or an array holding it.
\<close>

definition field_matches :: "doc \<Rightarrow> string \<Rightarrow> val \<Rightarrow> bool" where
  "field_matches d k v =
     (case map_of d k of
        None \<Rightarrow> False
      | Some (VList xs) \<Rightarrow> VList xs = v \<or> v \<in> set xs
      | Some w \<Rightarrow> w = v)"

definition matches :: "doc \<Rightarrow> doc \<Rightarrow> bool" where
  "matches filt d = list_all (\<lambda>kv. field_matches d (fst kv) (snd kv)) filt"

definition find_all :: "collection \<Rightarrow> doc \<Rightarrow> doc list" where
  "find_all c filt = filter (matches filt) (map stored_doc c)"

text \<open>
  \<^verbatim>\<open>.sort("created_at", 1)\<close>: ascending in the store's comparison order, in which an
  absent field counts as null, null sorts before strings, arrays, object identifiers,
  booleans and dates in this order, and dates compare by their time. An array is sorted
  by its least element, and an empty array before null. Documents with the same key keep
  their stored order. Values of one type other than dates are not compared further:
  \<^verbatim>\<open>created_at\<close> is written as a date or not at all.
\<close>

fun bson_rank :: "val option \<Rightarrow> nat" where
  "bson_rank None = 1"
| "bson_rank (Some VNone) = 1"
| "bson_rank (Some (VStr s)) = 3"
| "bson_rank (Some (VList xs)) = 5"
| "bson_rank (Some (VOid i)) = 7"
| "bson_rank (Some (VBool b)) = 8"
| "bson_rank (Some (VTime t)) = 9"

definition bson_key :: "val option \<Rightarrow> nat \<times> int" where
  "bson_key v = (bson_rank v, (case v of Some (VTime t) \<Rightarrow> t | _ \<Rightarrow> 0))"

definition sort_field :: "string \<Rightarrow> doc \<Rightarrow> nat \<times> int" where
  "sort_field k d =
     (case map_of d k of
        Some (VList []) \<Rightarrow> (0, 0)
      | Some (VList (x # xs)) \<Rightarrow> fold min (map (\<lambda>y. bson_key (Some y)) xs) (bson_key (Some x))
      | v \<Rightarrow> bson_key v)"

definition sort_asc :: "string \<Rightarrow> doc list \<Rightarrow> doc list" where
  "sort_asc k ds = sort_key (sort_field k) ds"

section \<open>Schemas\<close>

text \<open>
  The pydantic models of \<^verbatim>\<open>src/schemas.py\<close>. A \<^verbatim>\<open>Literal[...]\<close> is an enumeration with
  the string it is written as; a field name carries a prefix for its model
  (\<open>d_\<close> Department, \<open>u_\<close> User, \<open>a_\<close> Application, \<open>su_\<close> StatusUpdate,
  \<open>n_\<close> Notification, \<open>ra_\<close> ReviewAction), since several models share field names.
\<close>

datatype dept_type = Academic | Administrative

datatype role = Student | Coordinator | Hod | Registrar | Admin | Superadmin

datatype category =
  Bonafide_certificate | Leave_request | Lab_access | Project_approval | General

datatype status = Submitted | Under_review | Approved | Rejected | Forwarded

datatype stage = At_coordinator | At_hod | At_registrar | At_admin

datatype su_action = Submit | Review | Forward | Approve | Reject | Comment

fun dept_type_str :: "dept_type \<Rightarrow> string" where
  "dept_type_str Academic = ''academic''"
| "dept_type_str Administrative = ''administrative''"

fun role_str :: "role \<Rightarrow> string" where
  "role_str Student = ''student''"
| "role_str Coordinator = ''coordinator''"
| "role_str Hod = ''hod''"
| "role_str Registrar = ''registrar''"
| "role_str Admin = ''admin''"
| "role_str Superadmin = ''superadmin''"

fun category_str :: "category \<Rightarrow> string" where
  "category_str Bonafide_certificate = ''bonafide_certificate''"
| "category_str Leave_request = ''leave_request''"
| "category_str Lab_access = ''lab_access''"
| "category_str Project_approval = ''project_approval''"
| "category_str General = ''general''"

fun status_str :: "status \<Rightarrow> string" where
  "status_str Submitted = ''submitted''"
| "status_str Under_review = ''under_review''"
| "status_str Approved = ''approved''"
| "status_str Rejected = ''rejected''"
| "status_str Forwarded = ''forwarded''"

fun stage_str :: "stage \<Rightarrow> string" where
  "stage_str At_coordinator = ''coordinator''"
| "stage_str At_hod = ''hod''"
| "stage_str At_registrar = ''registrar''"
| "stage_str At_admin = ''admin''"

fun su_action_str :: "su_action \<Rightarrow> string" where
  "su_action_str Submit = ''submit''"
| "su_action_str Review = ''review''"
| "su_action_str Forward = ''forward''"
| "su_action_str Approve = ''approve''"
| "su_action_str Reject = ''reject''"
| "su_action_str Comment = ''comment''"

text \<open>Validation of a string against the two literals of \<^verbatim>\<open>StatusUpdate\<close>.\<close>

definition role_of_str :: "string \<Rightarrow> role option" where
  "role_of_str s = find (\<lambda>r. role_str r = s)
     [Student, Coordinator, Hod, Registrar, Admin, Superadmin]"

definition su_action_of_str :: "string \<Rightarrow> su_action option" where
  "su_action_of_str s = find (\<lambda>a. su_action_str a = s)
     [Submit, Review, Forward, Approve, Reject, Comment]"

record Department =
  d_name :: string
  d_code :: string
  d_type :: dept_type
  d_is_active :: bool

record User =
  u_full_name :: string
  u_email :: string
  u_role :: role
  u_department_code :: "string option"
  u_is_active :: bool

record Application =
  a_student_id :: string
  a_student_name :: string
  a_student_email :: string
  a_department_code :: string
  a_category :: category
  a_title :: string
  a_description :: string
  a_attachments :: "string list"
  a_status :: status
  a_current_stage :: stage
  a_route_history :: "string list"

record StatusUpdate =
  su_application_id :: string
  su_actor_role :: role
  su_actor_name :: string
  su_action :: su_action
  su_comments :: "string option"
  su_to_department :: "string option"
  su_created_at :: "int option"

record Notification =
  n_user_email :: string
  n_title :: string
  n_message :: string
  n_read :: bool

text \<open>
  The request body of a submission before validation: the required fields, and the
  fields with a default, each given or left out. Validation fills in the defaults of
  the \<^verbatim>\<open>Application\<close> model: \<^verbatim>\<open>Field("general")\<close>, \<^verbatim>\<open>Field(default_factory=list)\<close>,
  \<^verbatim>\<open>Field("submitted")\<close>, \<^verbatim>\<open>Field("coordinator")\<close>.
\<close>

record Application_payload =
  p_student_id :: string
  p_student_name :: string
  p_student_email :: string
  p_department_code :: string
  p_category :: "category option"
  p_title :: string
  p_description :: string
  p_attachments :: "string list option"
  p_status :: "status option"
  p_current_stage :: "stage option"
  p_route_history :: "string list option"

definition or_default :: "'a option \<Rightarrow> 'a \<Rightarrow> 'a" where
  "or_default x d = (case x of None \<Rightarrow> d | Some v \<Rightarrow> v)"

definition Application_of_payload :: "Application_payload \<Rightarrow> Application" where
  "Application_of_payload p =
     \<lparr> a_student_id = p_student_id p,
       a_student_name = p_student_name p,
       a_student_email = p_student_email p,
       a_department_code = p_department_code p,
       a_category = or_default (p_category p) General,
       a_title = p_title p,
       a_description = p_description p,
       a_attachments = or_default (p_attachments p) [],
       a_status = or_default (p_status p) Submitted,
       a_current_stage = or_default (p_current_stage p) At_coordinator,
       a_route_history = or_default (p_route_history p) [] \<rparr>"

text \<open>
  The constructor call \<^verbatim>\<open>StatusUpdate(application_id=..., actor_role=..., actor_name=...,
  action=..., comments=..., to_department=...)\<close> as both handlers write it: the two
  literal fields are validated, and \<^verbatim>\<open>created_at\<close>, which no call passes, takes its
  default \<^verbatim>\<open>None\<close>.
\<close>

definition StatusUpdate_init ::
  "string \<Rightarrow> string \<Rightarrow> string \<Rightarrow> string \<Rightarrow> string option \<Rightarrow> string option
     \<Rightarrow> error + StatusUpdate" where
  "StatusUpdate_init application_id actor_role actor_name action comments to_department =
     (case (role_of_str actor_role, su_action_of_str action) of
        (Some r, Some a) \<Rightarrow>
          Inr \<lparr> su_application_id = application_id,
                su_actor_role = r,
                su_actor_name = actor_name,
                su_action = a,
                su_comments = comments,
                su_to_department = to_department,
                su_created_at = None \<rparr>
      | _ \<Rightarrow> Inl ValidationError)"

text \<open>\<^verbatim>\<open>class ReviewAction(BaseModel)\<close> of \<^verbatim>\<open>src/main.py\<close>: plain strings, no literal.\<close>

record ReviewAction =
  ra_actor_role :: string
  ra_actor_name :: string
  ra_action :: string
  ra_comments :: "string option"
  ra_to_department :: "string option"

section \<open>The document store adapter\<close>

datatype entity =
    EDepartment Department
  | EUser User
  | EApplication Application
  | EStatusUpdate StatusUpdate
  | ENotification Notification

text \<open>
  Modelled from the spec: the serialisation inside \<^verbatim>\<open>create_document\<close> of the module
  \<^verbatim>\<open>database\<close>, which is not among the sources. The spec: it "serializes entity
  (excluding any unset optional fields)". The fields are written in the order of the
  model; an \<^verbatim>\<open>Optional\<close> field that is \<^verbatim>\<open>None\<close> is left out.
\<close>

definition opt_field :: "string \<Rightarrow> val option \<Rightarrow> doc" where
  "opt_field k v = (case v of None \<Rightarrow> [] | Some x \<Rightarrow> [(k, x)])"

fun serialize :: "entity \<Rightarrow> doc" where
  "serialize (EDepartment d) =
     [(''name'', VStr (d_name d)),
      (''code'', VStr (d_code d)),
      (''type'', VStr (dept_type_str (d_type d))),
      (''is_active'', VBool (d_is_active d))]"
| "serialize (EUser u) =
     [(''full_name'', VStr (u_full_name u)),
      (''email'', VStr (u_email u)),
      (''role'', VStr (role_str (u_role u)))]
     @ opt_field ''department_code'' (map_option VStr (u_department_code u))
     @ [(''is_active'', VBool (u_is_active u))]"
| "serialize (EApplication a) =
     [(''student_id'', VStr (a_student_id a)),
      (''student_name'', VStr (a_student_name a)),
      (''student_email'', VStr (a_student_email a)),
      (''department_code'', VStr (a_department_code a)),
      (''category'', VStr (category_str (a_category a))),
      (''title'', VStr (a_title a)),
      (''description'', VStr (a_description a)),
      (''attachments'', VList (map VStr (a_attachments a))),
      (''status'', VStr (status_str (a_status a))),
      (''current_stage'', VStr (stage_str (a_current_stage a))),
      (''route_history'', VList (map VStr (a_route_history a)))]"
| "serialize (EStatusUpdate u) =
     [(''application_id'', VStr (su_application_id u)),
      (''actor_role'', VStr (role_str (su_actor_role u))),
      (''actor_name'', VStr (su_actor_name u)),
      (''action'', VStr (su_action_str (su_action u)))]
     @ opt_field ''comments'' (map_option VStr (su_comments u))
     @ opt_field ''to_department'' (map_option VStr (su_to_department u))
     @ opt_field ''created_at'' (map_option VTime (su_created_at u))"
| "serialize (ENotification n) =
     [(''user_email'', VStr (n_user_email n)),
      (''title'', VStr (n_title n)),
      (''message'', VStr (n_message n)),
      (''read'', VBool (n_read n))]"

text \<open>
  Modelled from the spec: the document that \<^verbatim>\<open>create_document\<close> of the module
  \<^verbatim>\<open>database\<close> stores, which is not among the sources. The spec, section 3, gives a
  status update the field "created_at (timestamp, server-assigned at creation)", and no
  handler passes it: the record of a status update is stored with \<^verbatim>\<open>created_at\<close> set to
  the time of the server at the call, the argument \<open>now\<close>. No other entity of section 3
  has a creation time.
\<close>

fun stored_body :: "entity \<Rightarrow> int \<Rightarrow> doc" where
  "stored_body (EStatusUpdate u) now =
     AList.update ''created_at'' (VTime now) (serialize (EStatusUpdate u))"
| "stored_body (EDepartment d) now = serialize (EDepartment d)"
| "stored_body (EUser u) now = serialize (EUser u)"
| "stored_body (EApplication a) now = serialize (EApplication a)"
| "stored_body (ENotification n) now = serialize (ENotification n)"

text \<open>
  Modelled from the spec: \<^verbatim>\<open>create_document\<close> of the module \<^verbatim>\<open>database\<close>, which is not
  among the sources. The spec, section 4.4: "serializes entity (excluding any unset
  optional fields) and inserts into the named collection; returns the store-generated
  identifier as an opaque string", and an unreachable storage backend is the error
  Unavailable. The identifier the store generates is the argument \<open>new_id\<close>, the time of
  the server at the call is the argument \<open>now\<close>.
\<close>

definition create_document ::
  "string \<Rightarrow> entity \<Rightarrow> oid \<Rightarrow> int \<Rightarrow> state \<Rightarrow> (error + string) \<times> state" where
  "create_document collection_name data new_id now db =
     (case db of
        None \<Rightarrow> (Inl Unavailable, db)
      | Some s \<Rightarrow>
          (case insert_one (s collection_name) (stored_body data now) new_id of
             Inl e \<Rightarrow> (Inl e, db)
           | Inr c \<Rightarrow> (Inr (str_oid new_id), Some (s(collection_name := c)))))"

section \<open>The request handlers\<close>

text \<open>
  The handlers of \<^verbatim>\<open>src/main.py\<close>. A handler takes the state of the store and returns
  its response or its error together with the state it leaves: an error raised after a
  write leaves the write in place. A response dictionary is a document. Each identifier
  that the store generates during the call is an argument, and so is the time of the
  server at each call of \<^verbatim>\<open>create_document\<close>.
\<close>

definition to_public :: "doc \<Rightarrow> error + doc" where
  "to_public doc =
     (if doc = [] then Inr doc
      else (case map_of doc ''_id'' of
              None \<Rightarrow> Inl KeyError
            | Some v \<Rightarrow>
                (case py_str v of
                   None \<Rightarrow> Inl Unsupported
                 | Some s \<Rightarrow> Inr (AList.update ''id'' (VStr s) (AList.delete ''_id'' doc)))))"

text \<open>The list comprehension \<^verbatim>\<open>[to_public(d) for d in docs]\<close>: the first error ends it.\<close>

fun map_result :: "('a \<Rightarrow> error + 'b) \<Rightarrow> 'a list \<Rightarrow> error + 'b list" where
  "map_result f [] = Inr []"
| "map_result f (x # xs) =
     (case f x of
        Inl e \<Rightarrow> Inl e
      | Inr y \<Rightarrow> (case map_result f xs of Inl e \<Rightarrow> Inl e | Inr ys \<Rightarrow> Inr (y # ys)))"

definition create_department ::
  "Department \<Rightarrow> oid \<Rightarrow> int \<Rightarrow> state \<Rightarrow> (error + doc) \<times> state" where
  "create_department dept new_id now db =
     (case create_document ''department'' (EDepartment dept) new_id now db of
        (Inl e, db') \<Rightarrow> (Inl e, db')
      | (Inr inserted_id, db') \<Rightarrow> (Inr [(''id'', VStr inserted_id)], db'))"

definition create_user ::
  "User \<Rightarrow> oid \<Rightarrow> int \<Rightarrow> state \<Rightarrow> (error + doc) \<times> state" where
  "create_user user new_id now db =
     (case create_document ''user'' (EUser user) new_id now db of
        (Inl e, db') \<Rightarrow> (Inl e, db')
      | (Inr inserted_id, db') \<Rightarrow> (Inr [(''id'', VStr inserted_id)], db'))"

definition notify ::
  "Notification \<Rightarrow> oid \<Rightarrow> int \<Rightarrow> state \<Rightarrow> (error + doc) \<times> state" where
  "notify note new_id now db =
     (case create_document ''notification'' (ENotification note) new_id now db of
        (Inl e, db') \<Rightarrow> (Inl e, db')
      | (Inr inserted_id, db') \<Rightarrow> (Inr [(''id'', VStr inserted_id)], db'))"

text \<open>The \<^verbatim>\<open>StatusUpdate\<close> that \<^verbatim>\<open>submit_application\<close> builds for the new application.\<close>

definition submit_status_update :: "Application \<Rightarrow> string \<Rightarrow> error + StatusUpdate" where
  "submit_status_update app_data inserted_id =
     StatusUpdate_init inserted_id ''student'' (a_student_name app_data) ''submit''
       (Some ''Application submitted'') None"

definition submit_application ::
  "Application \<Rightarrow> oid \<Rightarrow> oid \<Rightarrow> int \<Rightarrow> int \<Rightarrow> state \<Rightarrow> (error + doc) \<times> state" where
  "submit_application app_data app_oid su_oid app_now su_now db =
     (case create_document ''application'' (EApplication app_data) app_oid app_now db of
        (Inl e, db1) \<Rightarrow> (Inl e, db1)
      | (Inr inserted_id, db1) \<Rightarrow>
          (case submit_status_update app_data inserted_id of
             Inl e \<Rightarrow> (Inl e, db1)
           | Inr su \<Rightarrow>
               (case create_document ''statusupdate'' (EStatusUpdate su) su_oid su_now db1 of
                  (Inl e, db2) \<Rightarrow> (Inl e, db2)
                | (Inr _, db2) \<Rightarrow>
                    (Inr [(''id'', VStr inserted_id), (''status'', VStr ''submitted'')],
                     db2))))"

text \<open>\<^verbatim>\<open>action.to_department or current_stage\<close>: \<^verbatim>\<open>None\<close> and the empty string are
  both false.\<close>

definition str_or :: "string option \<Rightarrow> val \<Rightarrow> val" where
  "str_or x y = (case x of None \<Rightarrow> y | Some s \<Rightarrow> if s = [] then y else VStr s)"

text \<open>
  Lines 146 to 162 of \<^verbatim>\<open>act_on_application\<close>: from the action and the document found,
  the new status, the current stage and the update document sent to the store.
\<close>

definition act_transition :: "ReviewAction \<Rightarrow> doc \<Rightarrow> val \<times> val \<times> update_spec" where
  "act_transition action doc =
     (let new_status = dict_get doc ''status'' (VStr ''submitted'');
          current_stage = dict_get doc ''current_stage'' (VStr ''coordinator'')
      in if ra_action action = ''forward'' then
           (let new_status = VStr ''forwarded'';
                current_stage = str_or (ra_to_department action) current_stage
            in (new_status, current_stage,
                \<lparr> upd_set = [(''status'', new_status), (''current_stage'', current_stage)],
                  upd_push = [(''route_history'', current_stage)] \<rparr>))
         else if ra_action action = ''approve'' then
           (let new_status = VStr ''approved''
            in (new_status, current_stage,
                \<lparr> upd_set = [(''status'', new_status)], upd_push = [] \<rparr>))
         else if ra_action action = ''reject'' then
           (let new_status = VStr ''rejected''
            in (new_status, current_stage,
                \<lparr> upd_set = [(''status'', new_status)], upd_push = [] \<rparr>))
         else
           (let new_status = VStr ''under_review''
            in (new_status, current_stage,
                \<lparr> upd_set = [(''status'', new_status)], upd_push = [] \<rparr>)))"

text \<open>The \<^verbatim>\<open>StatusUpdate\<close> that \<^verbatim>\<open>act_on_application\<close> builds to log the action.\<close>

definition action_status_update :: "string \<Rightarrow> ReviewAction \<Rightarrow> error + StatusUpdate" where
  "action_status_update app_id action =
     StatusUpdate_init app_id (ra_actor_role action) (ra_actor_name action)
       (ra_action action) (ra_comments action) (ra_to_department action)"

definition act_on_application ::
  "string \<Rightarrow> ReviewAction \<Rightarrow> oid \<Rightarrow> int \<Rightarrow> state \<Rightarrow> (error + doc) \<times> state" where
  "act_on_application app_id action su_oid now db =
     (case db of
        None \<Rightarrow> (Inl Unavailable, db)
      | Some s \<Rightarrow>
          (case ObjectId app_id of
             Inl e \<Rightarrow> (Inl e, db)
           | Inr i \<Rightarrow>
               (case find_one (s ''application'') i of
                  None \<Rightarrow> (Inl NotFound, db)
                | Some doc \<Rightarrow>
                    if doc = [] then (Inl NotFound, db)
                    else
                      (case act_transition action doc of
                         (new_status, current_stage, u) \<Rightarrow>
                           (case update_one (s ''application'') i u of
                              Inl e \<Rightarrow> (Inl e, db)
                            | Inr c \<Rightarrow>
                                (let db1 = Some (s(''application'' := c)) in
                                 case action_status_update app_id action of
                                   Inl e \<Rightarrow> (Inl e, db1)
                                 | Inr su \<Rightarrow>
                                     (case create_document ''statusupdate''
                                             (EStatusUpdate su) su_oid now db1 of
                                        (Inl e, db2) \<Rightarrow> (Inl e, db2)
                                      | (Inr _, db2) \<Rightarrow>
                                          (Inr [(''id'', VStr app_id),
                                                (''status'', new_status),
                                                (''current_stage'', current_stage)],
                                           db2))))))))"

text \<open>
  The same handler with the write requests it sends to the store listed in the order
  of the calls: \<^verbatim>\<open>update_one\<close> on lines 153, 156, 159 and 162 (one per branch) and
  \<^verbatim>\<open>insert_one\<close> inside \<^verbatim>\<open>create_document\<close> on line 170. A request is listed when it is
  sent, whatever the store answers.
\<close>

datatype write_op =
    Update_op string oid update_spec
  | Insert_op string oid doc

definition act_on_application_logged ::
  "string \<Rightarrow> ReviewAction \<Rightarrow> oid \<Rightarrow> int \<Rightarrow> state \<Rightarrow> ((error + doc) \<times> state) \<times> write_op list"
  where
  "act_on_application_logged app_id action su_oid now db =
     (case db of
        None \<Rightarrow> ((Inl Unavailable, db), [])
      | Some s \<Rightarrow>
          (case ObjectId app_id of
             Inl e \<Rightarrow> ((Inl e, db), [])
           | Inr i \<Rightarrow>
               (case find_one (s ''application'') i of
                  None \<Rightarrow> ((Inl NotFound, db), [])
                | Some doc \<Rightarrow>
                    if doc = [] then ((Inl NotFound, db), [])
                    else
                      (case act_transition action doc of
                         (new_status, current_stage, u) \<Rightarrow>
                           (let w1 = [Update_op ''application'' i u] in
                            case update_one (s ''application'') i u of
                              Inl e \<Rightarrow> ((Inl e, db), w1)
                            | Inr c \<Rightarrow>
                                (let db1 = Some (s(''application'' := c)) in
                                 case action_status_update app_id action of
                                   Inl e \<Rightarrow> ((Inl e, db1), w1)
                                 | Inr su \<Rightarrow>
                                     (let w2 = w1 @ [Insert_op ''statusupdate'' su_oid
                                                       (stored_body (EStatusUpdate su) now)] in
                                      case create_document ''statusupdate''
                                             (EStatusUpdate su) su_oid now db1 of
                                        (Inl e, db2) \<Rightarrow> ((Inl e, db2), w2)
                                      | (Inr _, db2) \<Rightarrow>
                                          ((Inr [(''id'', VStr app_id),
                                                 (''status'', new_status),
                                                 (''current_stage'', current_stage)],
                                            db2), w2))))))))"

definition get_timeline :: "string \<Rightarrow> state \<Rightarrow> error + doc list" where
  "get_timeline app_id db =
     (case db of
        None \<Rightarrow> Inl Unavailable
      | Some s \<Rightarrow>
          map_result to_public
            (sort_asc ''created_at''
               (find_all (s ''statusupdate'') [(''application_id'', VStr app_id)])))"

section \<open>Reachable states\<close>

text \<open>
  The states of the store that the writing handlers produce from the empty database,
  whatever the outcome of each call (an error after a write keeps the write) and whatever
  the time of the server at each call. An identifier that the store generates has twelve
  bytes.
\<close>

definition empty_db :: database where
  "empty_db = (\<lambda>_. [])"

inductive reachable :: "database \<Rightarrow> bool" where
  r_init: "reachable empty_db"
| r_dept: "reachable s \<Longrightarrow> create_department d i t (Some s) = (r, Some s') \<Longrightarrow> reachable s'"
| r_user: "reachable s \<Longrightarrow> create_user u i t (Some s) = (r, Some s') \<Longrightarrow> reachable s'"
| r_notify: "reachable s \<Longrightarrow> notify n i t (Some s) = (r, Some s') \<Longrightarrow> reachable s'"
| r_submit: "reachable s \<Longrightarrow> length i = 12 \<Longrightarrow> length j = 12 \<Longrightarrow>
     submit_application a i j t t' (Some s) = (r, Some s') \<Longrightarrow> reachable s'"
| r_act: "reachable s \<Longrightarrow> length j = 12 \<Longrightarrow>
     act_on_application app_id ra j t (Some s) = (r, Some s') \<Longrightarrow> reachable s'"

section \<open>Notions used in the statements\<close>

text \<open>The public form of a stored document: what \<open>to_public\<close> makes of \<open>stored_doc\<close>.\<close>

definition public_of :: "oid \<times> doc \<Rightarrow> doc" where
  "public_of p = AList.update ''id'' (VStr (str_oid (fst p))) (AList.delete ''_id'' (snd p))"

text \<open>
  An application document as the handlers leave it: \<^verbatim>\<open>status\<close> and \<^verbatim>\<open>current_stage\<close> are
  strings and \<^verbatim>\<open>route_history\<close> is an array.
\<close>

definition wf_app :: "doc \<Rightarrow> bool" where
  "wf_app body \<longleftrightarrow>
     (\<exists>st. map_of body ''status'' = Some (VStr st)) \<and>
     (\<exists>cs. map_of body ''current_stage'' = Some (VStr cs)) \<and>
     (\<exists>rh. map_of body ''route_history'' = Some (VList rh))"

text \<open>A status update refers to an application of the store: its \<^verbatim>\<open>application_id\<close> is a
  string that parses to the identifier of a stored application.\<close>

definition su_linked :: "database \<Rightarrow> doc \<Rightarrow> bool" where
  "su_linked s body \<longleftrightarrow>
     (\<exists>a i. map_of body ''application_id'' = Some (VStr a) \<and> ObjectId a = Inr i \<and>
            i \<in> ids (s ''application''))"

definition store_inv :: "database \<Rightarrow> bool" where
  "store_inv s \<longleftrightarrow>
     (\<forall>p \<in> set (s ''application''). wf_app (snd p)) \<and>
     (\<forall>p \<in> set (s ''statusupdate''). su_linked s (snd p))"

section \<open>The scenario of the specification\<close>

text \<open>
  The data of the scenario in section 8 of the specification: a leave request of student
  \<^verbatim>\<open>S1\<close> of department \<^verbatim>\<open>CSE\<close>, the identifiers the store generates for it and for its
  status updates, and the store after the submission to the empty database at the server
  time 100.
\<close>

definition scenario_application :: Application where
  "scenario_application =
     \<lparr> a_student_id = ''S1'', a_student_name = ''Asha'', a_student_email = ''asha@college.edu'',
       a_department_code = ''CSE'', a_category = Leave_request, a_title = ''Leave'',
       a_description = ''Two days of leave'', a_attachments = [],
       a_status = Submitted, a_current_stage = At_coordinator, a_route_history = [] \<rparr>"

definition scenario_app_oid :: oid where
  "scenario_app_oid = [1, 2, 3, 4, 5, 6, 7, 8, 9, 10, 11, 12]"

definition scenario_su_oid :: "nat \<Rightarrow> oid" where
  "scenario_su_oid n = [0, 0, 0, 0, 0, 0, 0, 0, 0, 0, 0, of_nat n]"

definition scenario_db :: database where
  "scenario_db =
     empty_db
       (''application'' := [(scenario_app_oid, serialize (EApplication scenario_application))],
        ''statusupdate'' :=
          [(scenario_su_oid 1,
            stored_body (EStatusUpdate
              \<lparr> su_application_id = str_oid scenario_app_oid, su_actor_role = Student,
                su_actor_name = a_student_name scenario_application, su_action = Submit,
                su_comments = Some ''Application submitted'',
                su_to_department = None, su_created_at = None \<rparr>) 100)])"

text \<open>The two actions of the scenario, by a coordinator and by the head of department.\<close>

definition scenario_forward :: ReviewAction where
  "scenario_forward =
     \<lparr> ra_actor_role = ''coordinator'', ra_actor_name = ''Ravi'', ra_action = ''forward'',
       ra_comments = None, ra_to_department = Some ''hod'' \<rparr>"

definition scenario_approve :: ReviewAction where
  "scenario_approve =
     \<lparr> ra_actor_role = ''hod'', ra_actor_name = ''Meera'', ra_action = ''approve'',
       ra_comments = Some ''ok'', ra_to_department = None \<rparr>"

section \<open>Object identifiers: rendering and parsing\<close>

lemma hexval_hexdigit: "n < 16 \<Longrightarrow> hexval (hexdigit n) = Some n"
  by (auto simp: hexval_def hexdigit_def Let_def)

lemma not_space_hexdigit: "n < 16 \<Longrightarrow> \<not> is_space (hexdigit n)"
  by (auto simp: is_space_def hexdigit_def)

lemma byte_hi: "unat (b :: byte) div 16 < 16"
proof -
  have "unat b < 2 ^ 8" using unsigned_less [of b, where ?'a = nat] by simp
  then show ?thesis by simp
qed

lemma fromhex_byte:
  "fromhex (hexdigit (unat (b :: byte) div 16) # hexdigit (unat b mod 16) # cs)
     = map_option ((#) b) (fromhex cs)"
proof -
  have "16 * (unat b div 16) + unat b mod 16 = unat b" by simp
  then show ?thesis
    by (simp add: hexval_hexdigit not_space_hexdigit byte_hi)
qed

lemma fromhex_hexlify: "fromhex (hexlify bs) = Some bs"
  by (induction bs) (simp_all add: hexlify_def fromhex_byte del: fromhex.simps(3))

lemma length_hexlify: "length (hexlify bs) = 2 * length bs"
  by (induction bs) (auto simp: hexlify_def)

text \<open>Parsing the rendering of a twelve-byte identifier gives the identifier back.\<close>

lemma ObjectId_str_oid: "length i = 12 \<Longrightarrow> ObjectId (str_oid i) = Inr i"
  by (simp add: ObjectId_def str_oid_def fromhex_hexlify length_hexlify)

section \<open>The handlers, case by case\<close>

lemma role_of_str_student: "role_of_str ''student'' = Some Student"
  by (simp add: role_of_str_def)

lemma su_action_of_str_submit: "su_action_of_str ''submit'' = Some Submit"
  by (simp add: su_action_of_str_def)

lemma submit_status_update_eq:
  "submit_status_update a sid =
     Inr \<lparr> su_application_id = sid, su_actor_role = Student,
           su_actor_name = a_student_name a, su_action = Submit,
           su_comments = Some ''Application submitted'', su_to_department = None,
           su_created_at = None \<rparr>"
  by (simp add: submit_status_update_def StatusUpdate_init_def role_of_str_student
      su_action_of_str_submit)

lemma StatusUpdate_init_created_at:
  "StatusUpdate_init a r n k c t = Inr su \<Longrightarrow> su_created_at su = None"
  by (auto simp: StatusUpdate_init_def split: option.splits)

lemma create_document_Some:
  "create_document coll e i t (Some s) =
     (if i \<in> ids (s coll) then (Inl DuplicateKeyError, Some s)
      else (Inr (str_oid i), Some (s(coll := s coll @ [(i, stored_body e t)]))))"
  by (simp add: create_document_def insert_one_def)

lemma submit_application_Some:
  "submit_application a i j t t' (Some s) =
     (if i \<in> ids (s ''application'') then (Inl DuplicateKeyError, Some s)
      else if j \<in> ids (s ''statusupdate'')
      then (Inl DuplicateKeyError,
            Some (s(''application'' := s ''application'' @ [(i, serialize (EApplication a))])))
      else (Inr [(''id'', VStr (str_oid i)), (''status'', VStr ''submitted'')],
            Some (s(''application'' := s ''application'' @ [(i, serialize (EApplication a))],
                    ''statusupdate'' := s ''statusupdate'' @
                       [(j, stored_body (EStatusUpdate
                              \<lparr> su_application_id = str_oid i, su_actor_role = Student,
                                su_actor_name = a_student_name a, su_action = Submit,
                                su_comments = Some ''Application submitted'',
                                su_to_department = None, su_created_at = None \<rparr>) t')]))))"
  by (simp add: submit_application_def create_document_Some submit_status_update_eq
      del: stored_body.simps(1) serialize.simps)

lemma find_fst_Some: "find (\<lambda>p. fst p = i) c = Some p \<Longrightarrow> fst p = i \<and> p \<in> set c"
  by (induction c) (auto split: if_splits)

lemma find_one_Some:
  "find_one c i = Some doc \<longleftrightarrow> (\<exists>p. find (\<lambda>p. fst p = i) c = Some p \<and> doc = stored_doc p)"
  by (auto simp: find_one_def)

lemma find_one_None: "find_one c i = None \<longleftrightarrow> i \<notin> ids c"
  by (force simp: find_one_def ids_def find_None_iff)

lemma update_one_absent: "find (\<lambda>p. fst p = i) c = None \<Longrightarrow> update_one c i u = Inr c"
  by (induction c) (auto split: if_splits)

lemma update_one_error:
  "find (\<lambda>p. fst p = i) c = Some p \<Longrightarrow> apply_update u (snd p) = Inl e \<Longrightarrow>
   update_one c i u = Inl e"
  by (induction c) (auto split: if_splits)

lemma update_one_found:
  "find (\<lambda>p. fst p = i) c = Some p \<Longrightarrow> apply_update u (snd p) = Inr d \<Longrightarrow>
   \<exists>c'. update_one c i u = Inr c' \<and> find (\<lambda>p. fst p = i) c' = Some (i, d) \<and>
        map fst c' = map fst c \<and>
        (\<forall>j. j \<noteq> i \<longrightarrow> find (\<lambda>p. fst p = j) c' = find (\<lambda>p. fst p = j) c) \<and>
        set c' \<subseteq> insert (i, d) (set c)"
proof (induction c)
  case Nil
  then show ?case by simp
next
  case (Cons q c)
  show ?case
  proof (cases "fst q = i")
    case True
    with Cons.prems show ?thesis by auto
  next
    case False
    with Cons.prems have "find (\<lambda>p. fst p = i) c = Some p" by simp
    from Cons.IH [OF this Cons.prems(2)] obtain c' where
      c': "update_one c i u = Inr c'" "find (\<lambda>p. fst p = i) c' = Some (i, d)"
        "map fst c' = map fst c"
        "\<forall>j. j \<noteq> i \<longrightarrow> find (\<lambda>p. fst p = j) c' = find (\<lambda>p. fst p = j) c"
        "set c' \<subseteq> insert (i, d) (set c)"
      by blast
    with False show ?thesis by auto
  qed
qed

lemma stored_doc_not_empty: "stored_doc p \<noteq> []"
  by (simp add: stored_doc_def)

lemma act_on_application_found:
  assumes "ObjectId app_id = Inr i"
    and "find (\<lambda>p. fst p = i) (s ''application'') = Some p"
    and "act_transition ra (stored_doc p) = (st, cs, u)"
    and "update_one (s ''application'') i u = Inr c"
  shows "act_on_application app_id ra j t (Some s) =
     (case action_status_update app_id ra of
        Inl e \<Rightarrow> (Inl e, Some (s(''application'' := c)))
      | Inr su \<Rightarrow>
          if j \<in> ids (s ''statusupdate'')
          then (Inl DuplicateKeyError, Some (s(''application'' := c)))
          else (Inr [(''id'', VStr app_id), (''status'', st), (''current_stage'', cs)],
                Some (s(''application'' := c,
                        ''statusupdate'' := s ''statusupdate'' @
                           [(j, stored_body (EStatusUpdate su) t)]))))"
  using assms
  by (simp add: act_on_application_def find_one_def stored_doc_not_empty
      create_document_Some Let_def del: stored_body.simps split: sum.splits)

lemma act_on_application_write_error:
  assumes "ObjectId app_id = Inr i"
    and "find (\<lambda>p. fst p = i) (s ''application'') = Some p"
    and "act_transition ra (stored_doc p) = (st, cs, u)"
    and "update_one (s ''application'') i u = Inl e"
  shows "act_on_application app_id ra j t (Some s) = (Inl e, Some s)"
  using assms
  by (simp add: act_on_application_def find_one_def stored_doc_not_empty)

lemma act_on_application_not_found:
  assumes "ObjectId app_id = Inr i" and "i \<notin> ids (s ''application'')"
  shows "act_on_application app_id ra j t (Some s) = (Inl NotFound, Some s)"
  using assms by (simp add: act_on_application_def find_one_None [THEN iffD2])

lemma act_on_application_invalid:
  assumes "ObjectId app_id = Inl e"
  shows "act_on_application app_id ra j t (Some s) = (Inl e, Some s)"
  using assms by (simp add: act_on_application_def)


text \<open>The handler with its write requests listed returns what the handler returns.\<close>

lemma act_on_application_logged_fst:
  "fst (act_on_application_logged app_id ra j t db) = act_on_application app_id ra j t db"
  by (simp add: act_on_application_logged_def act_on_application_def Let_def
      split: option.splits sum.splits prod.splits del: stored_body.simps)

lemma stored_body_status_update:
  "map_of (stored_body (EStatusUpdate su) t) ''created_at'' = Some (VTime t)"
  "k \<noteq> ''created_at'' \<Longrightarrow>
     map_of (stored_body (EStatusUpdate su) t) k = map_of (serialize (EStatusUpdate su)) k"
  by (simp_all add: update_conv' del: serialize.simps)

section \<open>The timeline\<close>

subsection \<open>C7: the timeline is ordered by creation time\<close>

lemma to_public_stored_doc: "to_public (stored_doc p) = Inr (public_of p)"
  by (simp add: to_public_def stored_doc_def public_of_def)

lemma map_result_to_public:
  "map_result to_public (map stored_doc c) = Inr (map public_of c)"
  by (induction c) (simp_all add: to_public_stored_doc)

lemma field_matches_stored_doc:
  "k \<noteq> ''_id'' \<Longrightarrow> field_matches (stored_doc p) k v = field_matches (snd p) k v"
  by (simp add: field_matches_def stored_doc_def)

lemma find_all_one_field:
  "k \<noteq> ''_id'' \<Longrightarrow>
   find_all c [(k, v)] = map stored_doc (filter (\<lambda>p. field_matches (snd p) k v) c)"
  by (simp add: find_all_def matches_def filter_map o_def field_matches_stored_doc)

lemma insort_key_map:
  "insort_key f (h x) (map h xs) = map h (insort_key (\<lambda>y. f (h y)) x xs)"
  by (induction xs) simp_all

lemma sort_key_map: "sort_key f (map h xs) = map h (sort_key (\<lambda>y. f (h y)) xs)"
  by (induction xs) (simp_all add: insort_key_map)

lemma map_of_public_of:
  "k \<noteq> ''id'' \<Longrightarrow> k \<noteq> ''_id'' \<Longrightarrow> map_of (public_of p) k = map_of (snd p) k"
  by (simp add: public_of_def update_conv' delete_conv')

lemma map_of_stored_doc: "k \<noteq> ''_id'' \<Longrightarrow> map_of (stored_doc p) k = map_of (snd p) k"
  by (simp add: stored_doc_def)

lemma sort_field_public_of:
  "k \<noteq> ''id'' \<Longrightarrow> k \<noteq> ''_id'' \<Longrightarrow> sort_field k (public_of p) = sort_field k (stored_doc p)"
  by (simp add: sort_field_def map_of_public_of map_of_stored_doc)

lemma get_timeline_Some:
  "get_timeline app_id (Some s) =
     Inr (map public_of
            (sort_key (\<lambda>p. sort_field ''created_at'' (stored_doc p))
               (filter (\<lambda>p. field_matches (snd p) ''application_id'' (VStr app_id))
                  (s ''statusupdate''))))"
  by (simp add: get_timeline_def find_all_one_field sort_asc_def sort_key_map
      map_result_to_public)

lemma sort_field_dated:
  "map_of d k = Some (VTime t) \<Longrightarrow> sort_field k d = (9, t)"
  by (simp add: sort_field_def bson_key_def)

lemma sort_field_undated:
  "map_of d k = None \<or> map_of d k = Some VNone \<Longrightarrow> sort_field k d = (1, 0)"
  by (auto simp: sort_field_def bson_key_def)

text \<open>
  C7. With the store available, \<^verbatim>\<open>get_timeline\<close> returns, for every identifier, the
  public forms of exactly the status updates whose \<^verbatim>\<open>application_id\<close> matches, each as
  often as it is stored, in non-decreasing order of \<^verbatim>\<open>created_at\<close>: of two returned
  entries that carry a creation time the earlier one in the list has the smaller or
  equal time, and an entry with a creation time never stands before one whose
  \<^verbatim>\<open>created_at\<close> is absent or null. When no stored update matches (the application may
  not exist at all) the result is the empty list and not an error.
\<close>

theorem get_timeline_sorted:
  "\<exists>docs. get_timeline app_id (Some s) = Inr docs \<and>
      mset docs = image_mset public_of
        (filter_mset (\<lambda>p. field_matches (snd p) ''application_id'' (VStr app_id))
           (mset (s ''statusupdate''))) \<and>
      sorted (map (sort_field ''created_at'') docs) \<and>
      (\<forall>i j t1 t2. i < j \<and> j < length docs \<and>
          map_of (docs ! i) ''created_at'' = Some (VTime t1) \<and>
          map_of (docs ! j) ''created_at'' = Some (VTime t2) \<longrightarrow> t1 \<le> t2) \<and>
      (\<forall>i j t1. i < j \<and> j < length docs \<and>
          map_of (docs ! i) ''created_at'' = Some (VTime t1) \<longrightarrow>
          map_of (docs ! j) ''created_at'' \<noteq> None \<and>
          map_of (docs ! j) ''created_at'' \<noteq> Some VNone) \<and>
      ((\<forall>p \<in> set (s ''statusupdate'').
          \<not> field_matches (snd p) ''application_id'' (VStr app_id)) \<longrightarrow> docs = [])"
proof -
  let ?f = "\<lambda>p. sort_field ''created_at'' (stored_doc p)"
  let ?ms = "filter (\<lambda>p. field_matches (snd p) ''application_id'' (VStr app_id))
                  (s ''statusupdate'')"
  let ?docs = "map public_of (sort_key ?f ?ms)"
  have "map (sort_field ''created_at'') ?docs = map ?f (sort_key ?f ?ms)"
    by (simp add: sort_field_public_of)
  then have srt: "sorted (map (sort_field ''created_at'') ?docs)"
    by (simp only: sorted_sort_key)
  have mono: "sort_field ''created_at'' (?docs ! i) \<le> sort_field ''created_at'' (?docs ! j)"
    if "i < j" "j < length ?docs" for i j
  proof -
    from that have "map (sort_field ''created_at'') ?docs ! i
        \<le> map (sort_field ''created_at'') ?docs ! j"
      by (intro sorted_nth_mono [OF srt]) simp_all
    with that show ?thesis by simp
  qed
  have dd: "t1 \<le> t2"
    if "i < j" "j < length ?docs"
      "map_of (?docs ! i) ''created_at'' = Some (VTime t1)"
      "map_of (?docs ! j) ''created_at'' = Some (VTime t2)" for i j t1 t2
    using mono [OF that(1,2)] sort_field_dated [OF that(3)] sort_field_dated [OF that(4)]
    by simp
  have du: "map_of (?docs ! j) ''created_at'' \<noteq> None \<and>
      map_of (?docs ! j) ''created_at'' \<noteq> Some VNone"
    if "i < j" "j < length ?docs"
      "map_of (?docs ! i) ''created_at'' = Some (VTime t1)" for i j t1
  proof (rule ccontr)
    assume "\<not> ?thesis"
    then have "sort_field ''created_at'' (?docs ! j) = (1, 0)"
      by (intro sort_field_undated) blast
    with mono [OF that(1,2)] sort_field_dated [OF that(3)] show False by simp
  qed
  have ms: "mset ?docs = image_mset public_of (mset ?ms)"
    by simp
  have emp: "(\<forall>p \<in> set (s ''statusupdate'').
          \<not> field_matches (snd p) ''application_id'' (VStr app_id)) \<longrightarrow> ?docs = []"
    by (simp add: filter_empty_conv)
  have g: "get_timeline app_id (Some s) = Inr ?docs"
    by (rule get_timeline_Some)
  from dd have dd': "\<forall>i j t1 t2. i < j \<and> j < length ?docs \<and>
          map_of (?docs ! i) ''created_at'' = Some (VTime t1) \<and>
          map_of (?docs ! j) ''created_at'' = Some (VTime t2) \<longrightarrow> t1 \<le> t2"
    by blast
  from du have du': "\<forall>i j t1. i < j \<and> j < length ?docs \<and>
          map_of (?docs ! i) ''created_at'' = Some (VTime t1) \<longrightarrow>
          map_of (?docs ! j) ''created_at'' \<noteq> None \<and>
          map_of (?docs ! j) ''created_at'' \<noteq> Some VNone"
    by blast
  have ms': "mset ?docs = image_mset public_of
        (filter_mset (\<lambda>p. field_matches (snd p) ''application_id'' (VStr app_id))
           (mset (s ''statusupdate'')))"
    using ms by simp
  show ?thesis
    apply (rule exI [of _ ?docs])
    apply (intro conjI)
    apply (rule g)
    apply (rule ms')
    apply (rule srt)
    apply (rule dd')
    apply (rule du')
    apply (rule emp)
    done
qed

text \<open>
  A store with four status updates: three of application \<open>A\<close>, stored with the times 5
  and 3 and without a time, and one of application \<open>B\<close>. The timeline of \<open>A\<close> is returned
  in the order no time, 3, 5; the timeline of \<open>C\<close> is empty.
\<close>

lemma get_timeline_example:
  "get_timeline ''A'' (Some (empty_db(''statusupdate'' :=
        [([1], [(''application_id'', VStr ''A''), (''created_at'', VTime 5)]),
         ([2], [(''application_id'', VStr ''A''), (''created_at'', VTime 3)]),
         ([3], [(''application_id'', VStr ''B''), (''created_at'', VTime 1)]),
         ([4], [(''application_id'', VStr ''A'')])]))) =
   Inr [[(''application_id'', VStr ''A''), (''id'', VStr ''04'')],
        [(''application_id'', VStr ''A''), (''created_at'', VTime 3), (''id'', VStr ''02'')],
        [(''application_id'', VStr ''A''), (''created_at'', VTime 5), (''id'', VStr ''01'')]]"
  by code_simp

theorem get_timeline_sorted_witness:
  "get_timeline ''A'' (Some (empty_db(''statusupdate'' :=
        [([1], [(''application_id'', VStr ''A''), (''created_at'', VTime 5)]),
         ([2], [(''application_id'', VStr ''A''), (''created_at'', VTime 3)]),
         ([3], [(''application_id'', VStr ''B''), (''created_at'', VTime 1)]),
         ([4], [(''application_id'', VStr ''A'')])]))) =
   Inr [[(''application_id'', VStr ''A''), (''id'', VStr ''04'')],
        [(''application_id'', VStr ''A''), (''created_at'', VTime 3), (''id'', VStr ''02'')],
        [(''application_id'', VStr ''A''), (''created_at'', VTime 5), (''id'', VStr ''01'')]] \<and>
   (3 :: int) \<le> 5 \<and>
   list_all (\<lambda>p. \<not> field_matches (snd p) ''application_id'' (VStr ''C''))
     ((empty_db(''statusupdate'' :=
        [([1], [(''application_id'', VStr ''A''), (''created_at'', VTime 5)]),
         ([2], [(''application_id'', VStr ''A''), (''created_at'', VTime 3)]),
         ([3], [(''application_id'', VStr ''B''), (''created_at'', VTime 1)]),
         ([4], [(''application_id'', VStr ''A'')])])) ''statusupdate'') \<and>
   get_timeline ''C'' (Some (empty_db(''statusupdate'' :=
        [([1], [(''application_id'', VStr ''A''), (''created_at'', VTime 5)]),
         ([2], [(''application_id'', VStr ''A''), (''created_at'', VTime 3)]),
         ([3], [(''application_id'', VStr ''B''), (''created_at'', VTime 1)]),
         ([4], [(''application_id'', VStr ''A'')])]))) = Inr []"
proof -
  let ?db = "empty_db(''statusupdate'' :=
        [([1], [(''application_id'', VStr ''A''), (''created_at'', VTime 5)]),
         ([2], [(''application_id'', VStr ''A''), (''created_at'', VTime 3)]),
         ([3], [(''application_id'', VStr ''B''), (''created_at'', VTime 1)]),
         ([4], [(''application_id'', VStr ''A'')])])"
  let ?docs = "[[(''application_id'', VStr ''A''), (''id'', VStr ''04'')],
        [(''application_id'', VStr ''A''), (''created_at'', VTime 3), (''id'', VStr ''02'')],
        [(''application_id'', VStr ''A''), (''created_at'', VTime 5), (''id'', VStr ''01'')]]"
  from get_timeline_sorted [of "''A''" ?db] get_timeline_example
  have "\<forall>i j t1 t2. i < j \<and> j < length ?docs \<and>
          map_of (?docs ! i) ''created_at'' = Some (VTime t1) \<and>
          map_of (?docs ! j) ''created_at'' = Some (VTime t2) \<longrightarrow> t1 \<le> t2"
    by auto
  from this [rule_format, of 1 2 3 5] have a: "(3 :: int) \<le> 5" by simp
  have n: "list_all (\<lambda>p. \<not> field_matches (snd p) ''application_id'' (VStr ''C''))
     (?db ''statusupdate'')"
    by (simp add: field_matches_def)
  with get_timeline_sorted [of "''C''" ?db] have c: "get_timeline ''C'' (Some ?db) = Inr []"
    by (auto simp: list_all_iff)
  from get_timeline_example a n c show ?thesis by blast
qed

section \<open>What an action does to the store\<close>

lemma str_or_VStr: "\<exists>c. str_or x (VStr cs) = VStr c"
  by (simp add: str_or_def split: option.splits)

lemma act_transition_forward:
  assumes "ra_action ra = ''forward''"
  shows "act_transition ra doc =
     (VStr ''forwarded'',
      str_or (ra_to_department ra) (dict_get doc ''current_stage'' (VStr ''coordinator'')),
      \<lparr> upd_set = [(''status'', VStr ''forwarded''),
                   (''current_stage'',
                    str_or (ra_to_department ra)
                      (dict_get doc ''current_stage'' (VStr ''coordinator'')))],
        upd_push = [(''route_history'',
                    str_or (ra_to_department ra)
                      (dict_get doc ''current_stage'' (VStr ''coordinator'')))] \<rparr>)"
  using assms by (simp add: act_transition_def Let_def)

lemma act_transition_other:
  assumes "ra_action ra \<noteq> ''forward''"
  shows "act_transition ra doc =
     (VStr (if ra_action ra = ''approve'' then ''approved''
            else if ra_action ra = ''reject'' then ''rejected'' else ''under_review''),
      dict_get doc ''current_stage'' (VStr ''coordinator''),
      \<lparr> upd_set = [(''status'',
                    VStr (if ra_action ra = ''approve'' then ''approved''
                          else if ra_action ra = ''reject'' then ''rejected''
                          else ''under_review''))],
        upd_push = [] \<rparr>)"
  using assms by (simp add: act_transition_def Let_def)

lemma apply_update_forward:
  assumes "map_of body ''route_history'' = Some (VList rh)"
  shows "apply_update \<lparr> upd_set = [(''status'', st), (''current_stage'', cs)],
                        upd_push = [(''route_history'', cs)] \<rparr> body =
         Inr (AList.update ''route_history'' (VList (rh @ [cs]))
                (AList.update ''current_stage'' cs (AList.update ''status'' st body)))"
  using assms by (simp add: apply_update_def update_conv')

lemma apply_update_status:
  "apply_update \<lparr> upd_set = [(''status'', st)], upd_push = [] \<rparr> body =
     Inr (AList.update ''status'' st body)"
  by (simp add: apply_update_def)


lemma act_on_application_effect:
  assumes oid: "ObjectId app_id = Inr i"
    and fnd: "find (\<lambda>p. fst p = i) (s ''application'') = Some p"
    and tr: "act_transition ra (stored_doc p) = (st, cs, u)"
    and ap: "apply_update u (snd p) = Inr d"
  shows "\<exists>c. update_one (s ''application'') i u = Inr c \<and>
           find (\<lambda>p. fst p = i) c = Some (i, d) \<and>
           map fst c = map fst (s ''application'') \<and>
           (\<forall>j. j \<noteq> i \<longrightarrow>
              find (\<lambda>p. fst p = j) c = find (\<lambda>p. fst p = j) (s ''application'')) \<and>
           set c \<subseteq> insert (i, d) (set (s ''application'')) \<and>
           act_on_application app_id ra j t (Some s) =
             (case action_status_update app_id ra of
                Inl e \<Rightarrow> (Inl e, Some (s(''application'' := c)))
              | Inr su \<Rightarrow>
                  if j \<in> ids (s ''statusupdate'')
                  then (Inl DuplicateKeyError, Some (s(''application'' := c)))
                  else (Inr [(''id'', VStr app_id), (''status'', st), (''current_stage'', cs)],
                        Some (s(''application'' := c,
                                ''statusupdate'' := s ''statusupdate'' @
                                   [(j, stored_body (EStatusUpdate su) t)]))))"
proof -
  from update_one_found [OF fnd ap] obtain c where
    c: "update_one (s ''application'') i u = Inr c"
      "find (\<lambda>p. fst p = i) c = Some (i, d)"
      "map fst c = map fst (s ''application'')"
      "\<forall>j. j \<noteq> i \<longrightarrow>
         find (\<lambda>p. fst p = j) c = find (\<lambda>p. fst p = j) (s ''application'')"
      "set c \<subseteq> insert (i, d) (set (s ''application''))"
    by blast
  from act_on_application_found [where s = s and j = j and t = t, OF oid fnd tr c(1)] c
  show ?thesis by blast
qed

lemma wf_app_transition:
  assumes wf: "wf_app (snd p)" and tr: "act_transition ra (stored_doc p) = (st, cs, u)"
  shows "\<exists>d. apply_update u (snd p) = Inr d \<and> wf_app d"
proof -
  from wf obtain st0 cs0 rh where
    b: "map_of (snd p) ''status'' = Some (VStr st0)"
       "map_of (snd p) ''current_stage'' = Some (VStr cs0)"
       "map_of (snd p) ''route_history'' = Some (VList rh)"
    by (auto simp: wf_app_def)
  have g: "dict_get (stored_doc p) ''current_stage'' (VStr ''coordinator'') = VStr cs0"
    using b by (simp add: dict_get_def map_of_stored_doc)
  show ?thesis
  proof (cases "ra_action ra = ''forward''")
    case True
    obtain c where c: "str_or (ra_to_department ra) (VStr cs0) = VStr c"
      using str_or_VStr by blast
    from tr True g c have u: "u = \<lparr> upd_set = [(''status'', VStr ''forwarded''),
        (''current_stage'', VStr c)], upd_push = [(''route_history'', VStr c)] \<rparr>"
      by (auto simp: act_transition_forward)
    show ?thesis
      unfolding u apply_update_forward [OF b(3)]
      by (simp add: wf_app_def update_conv')
  next
    case False
    from tr False have u: "u = \<lparr> upd_set = [(''status'',
        VStr (if ra_action ra = ''approve'' then ''approved''
              else if ra_action ra = ''reject'' then ''rejected'' else ''under_review''))],
        upd_push = [] \<rparr>"
      by (auto simp: act_transition_other)
    show ?thesis
      unfolding u apply_update_status using b
      by (simp add: wf_app_def update_conv')
  qed
qed

lemma action_status_update_application_id:
  "action_status_update app_id ra = Inr su \<Longrightarrow> su_application_id su = app_id"
  by (auto simp: action_status_update_def StatusUpdate_init_def split: option.splits)

lemma su_linked_mono:
  "ids (s ''application'') \<subseteq> ids (s' ''application'') \<Longrightarrow> su_linked s b \<Longrightarrow> su_linked s' b"
  by (auto simp: su_linked_def)

lemma ids_map_fst: "map fst c = map fst c' \<Longrightarrow> ids c = ids c'"
  by (metis ids_def set_map)

lemma find_fst_in_ids: "find (\<lambda>p. fst p = i) c = Some p \<Longrightarrow> i \<in> ids c"
  by (auto simp: ids_def dest!: find_fst_Some)

lemma wf_app_serialize: "wf_app (serialize (EApplication a))"
  by (simp add: wf_app_def)

lemma store_inv_insert_other:
  assumes "store_inv s" and "coll \<noteq> ''application''" and "coll \<noteq> ''statusupdate''"
  shows "store_inv (s(coll := c))"
  using assms by (auto simp: store_inv_def su_linked_def)

lemma store_inv_create_document:
  assumes "store_inv s" and "coll \<noteq> ''application''" and "coll \<noteq> ''statusupdate''"
    and "create_document coll e i t (Some s) = (r, Some s')"
  shows "store_inv s'"
  using assms
  by (auto simp: create_document_Some store_inv_insert_other split: if_splits)

lemma store_inv_submit:
  assumes inv: "store_inv s" and len: "length i = 12"
    and sub: "submit_application a i j t t' (Some s) = (r, Some s')"
  shows "store_inv s'"
proof -
  let ?s1 = "s(''application'' := s ''application'' @ [(i, serialize (EApplication a))])"
  have "\<forall>p \<in> set (s ''statusupdate''). su_linked ?s1 (snd p)"
    using inv by (auto simp: store_inv_def ids_def intro: su_linked_mono [of s])
  then have s1: "store_inv ?s1"
    using inv
    by (auto simp: store_inv_def wf_app_serialize simp del: serialize.simps)
  have l: "su_linked ?s1 (stored_body (EStatusUpdate
              \<lparr> su_application_id = str_oid i, su_actor_role = Student,
                su_actor_name = a_student_name a, su_action = Submit,
                su_comments = Some ''Application submitted'',
                su_to_department = None, su_created_at = None \<rparr>) t')"
    using ObjectId_str_oid [OF len] by (simp add: su_linked_def ids_def update_conv')
  have s2: "store_inv (?s1(''statusupdate'' := s ''statusupdate'' @ [(j, stored_body (EStatusUpdate
              \<lparr> su_application_id = str_oid i, su_actor_role = Student,
                su_actor_name = a_student_name a, su_action = Submit,
                su_comments = Some ''Application submitted'',
                su_to_department = None, su_created_at = None \<rparr>) t')]))"
    using s1 l
    by (auto simp: store_inv_def su_linked_def simp del: serialize.simps stored_body.simps)
  from sub inv s1 s2 show ?thesis
    by (auto simp: submit_application_Some split: if_splits
        simp del: serialize.simps stored_body.simps)
qed

lemma store_inv_act:
  assumes inv: "store_inv s"
    and act: "act_on_application app_id ra j t (Some s) = (r, Some s')"
  shows "store_inv s'"
proof (cases "ObjectId app_id")
  case (Inl e)
  with act inv show ?thesis by (simp add: act_on_application_invalid)
next
  case (Inr i)
  show ?thesis
  proof (cases "find (\<lambda>p. fst p = i) (s ''application'')")
    case None
    then have "i \<notin> ids (s ''application'')"
      by (auto simp: find_None_iff ids_def)
    with act inv Inr show ?thesis by (simp add: act_on_application_not_found)
  next
    case (Some p)
    obtain st cs u where tr: "act_transition ra (stored_doc p) = (st, cs, u)"
      by (cases "act_transition ra (stored_doc p)") auto
    have wfp: "wf_app (snd p)"
      using inv Some by (auto simp: store_inv_def dest!: find_fst_Some)
    from wf_app_transition [OF wfp tr] obtain d where
      d: "apply_update u (snd p) = Inr d" "wf_app d" by blast
    from act_on_application_effect [where s = s and j = j and t = t, OF Inr Some tr d(1)]
    obtain c where
      c: "find (\<lambda>p. fst p = i) c = Some (i, d)"
         "map fst c = map fst (s ''application'')"
         "set c \<subseteq> insert (i, d) (set (s ''application''))"
         "act_on_application app_id ra j t (Some s) =
             (case action_status_update app_id ra of
                Inl e \<Rightarrow> (Inl e, Some (s(''application'' := c)))
              | Inr su \<Rightarrow>
                  if j \<in> ids (s ''statusupdate'')
                  then (Inl DuplicateKeyError, Some (s(''application'' := c)))
                  else (Inr [(''id'', VStr app_id), (''status'', st), (''current_stage'', cs)],
                        Some (s(''application'' := c,
                                ''statusupdate'' := s ''statusupdate'' @
                                   [(j, stored_body (EStatusUpdate su) t)]))))"
      by blast
    have idc: "ids c = ids (s ''application'')"
      using c(2) by (rule ids_map_fst)
    have s1: "store_inv (s(''application'' := c))"
      using inv c(3) d(2) idc
      by (auto simp: store_inv_def su_linked_def)
    have s2: "store_inv (s(''application'' := c,
                 ''statusupdate'' := s ''statusupdate'' @ [(j, stored_body (EStatusUpdate su) t)]))"
      if su: "action_status_update app_id ra = Inr su" for su
    proof -
      have "su_linked (s(''application'' := c)) (stored_body (EStatusUpdate su) t)"
        using action_status_update_application_id [OF su] Inr find_fst_in_ids [OF c(1)]
        by (auto simp: su_linked_def update_conv')
      with s1 show ?thesis
        by (auto simp: store_inv_def su_linked_def simp del: serialize.simps stored_body.simps)
    qed
    from act c(4) s1 s2 show ?thesis
      by (auto split: sum.splits if_splits)
  qed
qed

lemma reachable_store_inv: "reachable s \<Longrightarrow> store_inv s"
proof (induction rule: reachable.induct)
  case r_init
  show ?case by (simp add: store_inv_def empty_db_def)
next
  case (r_dept s d i t r s')
  then show ?case
    by (auto simp: create_department_def split: prod.splits sum.splits
        dest: store_inv_create_document [rotated 3])
next
  case (r_user s u i t r s')
  then show ?case
    by (auto simp: create_user_def split: prod.splits sum.splits
        dest: store_inv_create_document [rotated 3])
next
  case (r_notify s n i t r s')
  then show ?case
    by (auto simp: notify_def split: prod.splits sum.splits
        dest: store_inv_create_document [rotated 3])
next
  case (r_submit s i j a t t' r s')
  then show ?case by (auto intro: store_inv_submit)
next
  case (r_act s j app_id ra t r s')
  then show ?case by (auto intro: store_inv_act)
qed


section \<open>The scenario, evaluated\<close>

lemma scenario_app_id: "str_oid scenario_app_oid = ''0102030405060708090a0b0c''"
  by code_simp

lemma scenario_ObjectId: "ObjectId ''0102030405060708090a0b0c'' = Inr scenario_app_oid"
  using ObjectId_str_oid [of scenario_app_oid]
  by (simp add: scenario_app_id) (simp add: scenario_app_oid_def)

lemma scenario_submit:
  "submit_application scenario_application scenario_app_oid (scenario_su_oid 1) 100 100
     (Some empty_db)
     = (Inr [(''id'', VStr ''0102030405060708090a0b0c''), (''status'', VStr ''submitted'')],
        Some scenario_db)"
  by (simp add: submit_application_Some scenario_db_def scenario_app_id ids_def empty_db_def
      del: serialize.simps stored_body.simps)

lemma reachable_scenario_db: "reachable scenario_db"
  by (rule r_submit [OF r_init _ _ scenario_submit])
     (simp_all add: scenario_app_oid_def scenario_su_oid_def)

lemma scenario_find:
  "find (\<lambda>p. fst p = scenario_app_oid) (scenario_db ''application'')
     = Some (scenario_app_oid, serialize (EApplication scenario_application))"
  by (simp add: scenario_db_def)

subsection \<open>C6: one status update per submission\<close>

text \<open>
  C6. In every state reachable through the handlers, a submission for which the store
  generates fresh identifiers succeeds and returns the rendering of the new identifier;
  immediately afterwards exactly one status update matches that id, and it has
  \<^verbatim>\<open>action = submit\<close>, \<^verbatim>\<open>actor_role = student\<close>, the student's name as \<^verbatim>\<open>actor_name\<close> and the
  comment \<^verbatim>\<open>Application submitted\<close>; its creation time is the time of the server.
\<close>

theorem submission_has_one_status_update:
  assumes "reachable s" and "length i = 12"
    and "i \<notin> ids (s ''application'')" and "j \<notin> ids (s ''statusupdate'')"
  shows "\<exists>s' body.
     submit_application a i j t t' (Some s) =
       (Inr [(''id'', VStr (str_oid i)), (''status'', VStr ''submitted'')], Some s') \<and>
     filter (\<lambda>p. field_matches (snd p) ''application_id'' (VStr (str_oid i)))
       (s' ''statusupdate'') = [(j, body)] \<and>
     map_of body ''application_id'' = Some (VStr (str_oid i)) \<and>
     map_of body ''action'' = Some (VStr ''submit'') \<and>
     map_of body ''actor_role'' = Some (VStr ''student'') \<and>
     map_of body ''actor_name'' = Some (VStr (a_student_name a)) \<and>
     map_of body ''comments'' = Some (VStr ''Application submitted'') \<and>
     map_of body ''created_at'' = Some (VTime t')"
proof -
  let ?body = "stored_body (EStatusUpdate
      \<lparr> su_application_id = str_oid i, su_actor_role = Student,
        su_actor_name = a_student_name a, su_action = Submit,
        su_comments = Some ''Application submitted'',
        su_to_department = None, su_created_at = None \<rparr>) t'"
  let ?s' = "s(''application'' := s ''application'' @ [(i, serialize (EApplication a))],
               ''statusupdate'' := s ''statusupdate'' @ [(j, ?body)])"
  have sub: "submit_application a i j t t' (Some s) =
       (Inr [(''id'', VStr (str_oid i)), (''status'', VStr ''submitted'')], Some ?s')"
    using assms(3,4)
    by (simp add: submit_application_Some del: serialize.simps stored_body.simps)
  have inv: "store_inv s" using assms(1) by (rule reachable_store_inv)
  have old: "\<not> field_matches (snd p) ''application_id'' (VStr (str_oid i))"
    if p: "p \<in> set (s ''statusupdate'')" for p
  proof
    assume m: "field_matches (snd p) ''application_id'' (VStr (str_oid i))"
    from inv p obtain a' i' where
      l: "map_of (snd p) ''application_id'' = Some (VStr a')" "ObjectId a' = Inr i'"
         "i' \<in> ids (s ''application'')"
      by (auto simp: store_inv_def su_linked_def)
    from m l(1) have "a' = str_oid i" by (simp add: field_matches_def)
    with l(2) ObjectId_str_oid [OF assms(2)] have "i' = i" by simp
    with l(3) assms(3) show False by simp
  qed
  then have "filter (\<lambda>p. field_matches (snd p) ''application_id'' (VStr (str_oid i)))
       (s ''statusupdate'') = []"
    by (simp add: filter_empty_conv)
  then have f: "filter (\<lambda>p. field_matches (snd p) ''application_id'' (VStr (str_oid i)))
       (?s' ''statusupdate'') = [(j, ?body)]"
    by (simp add: field_matches_def update_conv')
  have b: "map_of ?body ''application_id'' = Some (VStr (str_oid i))"
    "map_of ?body ''action'' = Some (VStr ''submit'')"
    "map_of ?body ''actor_role'' = Some (VStr ''student'')"
    "map_of ?body ''actor_name'' = Some (VStr (a_student_name a))"
    "map_of ?body ''comments'' = Some (VStr ''Application submitted'')"
    "map_of ?body ''created_at'' = Some (VTime t')"
    by (simp_all add: opt_field_def update_conv')
  from sub f b show ?thesis by blast
qed

theorem submission_has_one_status_update_witness:
  "reachable scenario_db \<and> length [1, 1, 1, 1, 1, 1, 1, 1, 1, 1, 1, 1 :: byte] = 12 \<and>
   [1, 1, 1, 1, 1, 1, 1, 1, 1, 1, 1, 1] \<notin> ids (scenario_db ''application'') \<and>
   scenario_su_oid 2 \<notin> ids (scenario_db ''statusupdate'') \<and>
   (\<exists>s' body.
     submit_application scenario_application [1, 1, 1, 1, 1, 1, 1, 1, 1, 1, 1, 1]
         (scenario_su_oid 2) 150 150 (Some scenario_db) =
       (Inr [(''id'', VStr (str_oid [1, 1, 1, 1, 1, 1, 1, 1, 1, 1, 1, 1])),
             (''status'', VStr ''submitted'')], Some s') \<and>
     filter (\<lambda>p. field_matches (snd p) ''application_id''
                   (VStr (str_oid [1, 1, 1, 1, 1, 1, 1, 1, 1, 1, 1, 1])))
       (s' ''statusupdate'') = [(scenario_su_oid 2, body)] \<and>
     map_of body ''action'' = Some (VStr ''submit'') \<and>
     map_of body ''created_at'' = Some (VTime 150))"
proof -
  have h: "length [1, 1, 1, 1, 1, 1, 1, 1, 1, 1, 1, 1 :: byte] = 12"
    "[1, 1, 1, 1, 1, 1, 1, 1, 1, 1, 1, 1] \<notin> ids (scenario_db ''application'')"
    "scenario_su_oid 2 \<notin> ids (scenario_db ''statusupdate'')"
    by (simp_all add: scenario_db_def ids_def scenario_app_oid_def scenario_su_oid_def)
  from submission_has_one_status_update
    [OF reachable_scenario_db h, of scenario_application 150 150]
    reachable_scenario_db h
  show ?thesis by blast
qed

subsection \<open>C2: what a submission persists\<close>

text \<open>
  C2. The claim fails at a payload that sets the workflow fields: \<^verbatim>\<open>status\<close>,
  \<^verbatim>\<open>current_stage\<close> and \<^verbatim>\<open>route_history\<close> are fields of the \<^verbatim>\<open>Application\<close> model and
  \<^verbatim>\<open>submit_application\<close> hands the validated payload to the store as it is. Here the
  scenario's application is submitted with \<^verbatim>\<open>status = approved\<close>,
  \<^verbatim>\<open>current_stage = admin\<close> and \<^verbatim>\<open>route_history = [hod]\<close>: the store holds these values,
  while the response of the same call says \<^verbatim>\<open>status = submitted\<close>.
\<close>

theorem submit_keeps_payload_workflow_fields:
  "submit_application
     (scenario_application
        \<lparr> a_status := Approved, a_current_stage := At_admin, a_route_history := [''hod''] \<rparr>)
     scenario_app_oid (scenario_su_oid 1) 100 100 (Some empty_db)
   = (Inr [(''id'', VStr ''0102030405060708090a0b0c''), (''status'', VStr ''submitted'')],
      Some (empty_db
        (''application'' :=
           [(scenario_app_oid,
             [(''student_id'', VStr ''S1''), (''student_name'', VStr ''Asha''),
              (''student_email'', VStr ''asha@college.edu''),
              (''department_code'', VStr ''CSE''), (''category'', VStr ''leave_request''),
              (''title'', VStr ''Leave''), (''description'', VStr ''Two days of leave''),
              (''attachments'', VList []), (''status'', VStr ''approved''),
              (''current_stage'', VStr ''admin''),
              (''route_history'', VList [VStr ''hod''])])],
         ''statusupdate'' :=
           [(scenario_su_oid 1,
             [(''application_id'', VStr ''0102030405060708090a0b0c''),
              (''actor_role'', VStr ''student''), (''actor_name'', VStr ''Asha''),
              (''action'', VStr ''submit''),
              (''comments'', VStr ''Application submitted''),
              (''created_at'', VTime 100)])])))"
  by (simp add: submit_application_Some scenario_app_id ids_def empty_db_def
      scenario_application_def opt_field_def)

subsection \<open>C4: an identifier that references no application\<close>

text \<open>
  C4. An identifier that parses and references no stored application gives \<open>NotFound\<close>
  and leaves the store as it was (\<open>act_on_application_not_found\<close>). An identifier that
  does not parse references no application either, but \<^verbatim>\<open>ObjectId(app_id)\<close> raises
  before the look-up: the call ends with \<open>InvalidId\<close>, not with \<open>NotFound\<close>. The store
  is unchanged in both cases.
\<close>

theorem act_on_malformed_id:
  "act_on_application ''abc'' scenario_approve (scenario_su_oid 2) 300 (Some scenario_db)
     = (Inl InvalidId, Some scenario_db)"
  by (simp add: act_on_application_invalid ObjectId_def)


section \<open>Actions on an existing application\<close>

lemma act_on_existing:
  assumes inv: "store_inv s" and oid: "ObjectId app_id = Inr i"
    and doc: "find_one (s ''application'') i = Some doc"
  shows "\<exists>body st cs u d c.
           doc = stored_doc (i, body) \<and> wf_app body \<and>
           act_transition ra doc = (st, cs, u) \<and>
           apply_update u body = Inr d \<and> wf_app d \<and>
           update_one (s ''application'') i u = Inr c \<and>
           find_one c i = Some (stored_doc (i, d)) \<and>
           (\<forall>k. k \<noteq> i \<longrightarrow> find_one c k = find_one (s ''application'') k) \<and>
           act_on_application app_id ra j t (Some s) =
             (case action_status_update app_id ra of
                Inl e \<Rightarrow> (Inl e, Some (s(''application'' := c)))
              | Inr su \<Rightarrow>
                  if j \<in> ids (s ''statusupdate'')
                  then (Inl DuplicateKeyError, Some (s(''application'' := c)))
                  else (Inr [(''id'', VStr app_id), (''status'', st), (''current_stage'', cs)],
                        Some (s(''application'' := c,
                                ''statusupdate'' := s ''statusupdate'' @
                                   [(j, stored_body (EStatusUpdate su) t)]))))"
proof -
  from doc obtain p where p: "find (\<lambda>p. fst p = i) (s ''application'') = Some p"
    "doc = stored_doc p"
    by (auto simp: find_one_Some)
  from find_fst_Some [OF p(1)] have fp: "fst p = i" "p \<in> set (s ''application'')" by auto
  then have pe: "p = (i, snd p)" by (cases p) auto
  have wfp: "wf_app (snd p)" using inv fp(2) by (auto simp: store_inv_def)
  obtain st cs u where tr: "act_transition ra (stored_doc p) = (st, cs, u)"
    by (cases "act_transition ra (stored_doc p)") auto
  from wf_app_transition [OF wfp tr] obtain d where
    d: "apply_update u (snd p) = Inr d" "wf_app d" by blast
  from act_on_application_effect [where s = s and j = j and t = t, OF oid p(1) tr d(1)] obtain c where
    c: "update_one (s ''application'') i u = Inr c"
       "find (\<lambda>p. fst p = i) c = Some (i, d)"
       "\<forall>j. j \<noteq> i \<longrightarrow>
          find (\<lambda>p. fst p = j) c = find (\<lambda>p. fst p = j) (s ''application'')"
       "act_on_application app_id ra j t (Some s) =
             (case action_status_update app_id ra of
                Inl e \<Rightarrow> (Inl e, Some (s(''application'' := c)))
              | Inr su \<Rightarrow>
                  if j \<in> ids (s ''statusupdate'')
                  then (Inl DuplicateKeyError, Some (s(''application'' := c)))
                  else (Inr [(''id'', VStr app_id), (''status'', st), (''current_stage'', cs)],
                        Some (s(''application'' := c,
                                ''statusupdate'' := s ''statusupdate'' @
                                   [(j, stored_body (EStatusUpdate su) t)]))))"
    by blast
  have f1: "find_one c i = Some (stored_doc (i, d))"
    using c(2) by (simp add: find_one_def)
  have f2: "\<forall>k. k \<noteq> i \<longrightarrow> find_one c k = find_one (s ''application'') k"
    using c(3) by (simp add: find_one_def)
  have "doc = stored_doc (i, snd p)" using p(2) pe by simp
  with wfp tr p(2) d c(1) f1 f2 c(4) show ?thesis by blast
qed

text \<open>Whatever the outcome of the call, the application collection it leaves is the
  updated one.\<close>

lemma act_outcome_application:
  assumes "act_on_application app_id ra j t (Some s) =
             (case action_status_update app_id ra of
                Inl e \<Rightarrow> (Inl e, Some (s(''application'' := c)))
              | Inr su \<Rightarrow>
                  if j \<in> ids (s ''statusupdate'')
                  then (Inl DuplicateKeyError, Some (s(''application'' := c)))
                  else (Inr r,
                        Some (s(''application'' := c,
                                ''statusupdate'' := s ''statusupdate'' @
                                   [(j, stored_body (EStatusUpdate su) t)]))))"
  shows "\<exists>res s'. act_on_application app_id ra j t (Some s) = (res, Some s') \<and>
           s' ''application'' = c"
  using assms by (auto split: sum.splits if_splits)

lemma str_or_cases:
  "str_or x (VStr cs) =
     VStr (case x of None \<Rightarrow> cs | Some D \<Rightarrow> if D = [] then cs else D)"
  by (simp add: str_or_def split: option.splits)

lemmas scenario_eval =
  act_on_application_def scenario_ObjectId find_one_def scenario_db_def
  act_transition_def dict_get_def stored_doc_def str_or_def apply_update_def
  action_status_update_def StatusUpdate_init_def role_of_str_def su_action_of_str_def
  create_document_def insert_one_def ids_def scenario_su_oid_def empty_db_def Let_def
  scenario_application_def scenario_forward_def scenario_approve_def opt_field_def
  scenario_app_id fun_eq_iff

lemma scenario_forward_act:
  "act_on_application ''0102030405060708090a0b0c'' scenario_forward (scenario_su_oid 2) 200
     (Some scenario_db)
   = (Inr [(''id'', VStr ''0102030405060708090a0b0c''), (''status'', VStr ''forwarded''),
           (''current_stage'', VStr ''hod'')],
      Some (scenario_db
        (''application'' :=
           [(scenario_app_oid,
             [(''student_id'', VStr ''S1''), (''student_name'', VStr ''Asha''),
              (''student_email'', VStr ''asha@college.edu''),
              (''department_code'', VStr ''CSE''), (''category'', VStr ''leave_request''),
              (''title'', VStr ''Leave''), (''description'', VStr ''Two days of leave''),
              (''attachments'', VList []), (''status'', VStr ''forwarded''),
              (''current_stage'', VStr ''hod''),
              (''route_history'', VList [VStr ''hod''])])],
         ''statusupdate'' := scenario_db ''statusupdate'' @
           [(scenario_su_oid 2,
             [(''application_id'', VStr ''0102030405060708090a0b0c''),
              (''actor_role'', VStr ''coordinator''), (''actor_name'', VStr ''Ravi''),
              (''action'', VStr ''forward''), (''to_department'', VStr ''hod''),
              (''created_at'', VTime 200)])])))"
  by (simp add: scenario_eval)

subsection \<open>C3: forwarding\<close>

text \<open>
  C3, as stated, does not hold when \<^verbatim>\<open>to_department\<close> is provided as the empty string:
  \<^verbatim>\<open>action.to_department or current_stage\<close> takes the empty string for a missing value,
  so the stage stays \<^verbatim>\<open>coordinator\<close> and \<^verbatim>\<open>coordinator\<close>, not the empty string, is
  appended to the route history.
\<close>

theorem forward_to_empty_department:
  "act_on_application ''0102030405060708090a0b0c''
     (scenario_forward \<lparr> ra_to_department := Some '''' \<rparr>) (scenario_su_oid 2) 200
     (Some scenario_db)
   = (Inr [(''id'', VStr ''0102030405060708090a0b0c''), (''status'', VStr ''forwarded''),
           (''current_stage'', VStr ''coordinator'')],
      Some (scenario_db
        (''application'' :=
           [(scenario_app_oid,
             [(''student_id'', VStr ''S1''), (''student_name'', VStr ''Asha''),
              (''student_email'', VStr ''asha@college.edu''),
              (''department_code'', VStr ''CSE''), (''category'', VStr ''leave_request''),
              (''title'', VStr ''Leave''), (''description'', VStr ''Two days of leave''),
              (''attachments'', VList []), (''status'', VStr ''forwarded''),
              (''current_stage'', VStr ''coordinator''),
              (''route_history'', VList [VStr ''coordinator''])])],
         ''statusupdate'' := scenario_db ''statusupdate'' @
           [(scenario_su_oid 2,
             [(''application_id'', VStr ''0102030405060708090a0b0c''),
              (''actor_role'', VStr ''coordinator''), (''actor_name'', VStr ''Ravi''),
              (''action'', VStr ''forward''), (''to_department'', VStr ''''),
              (''created_at'', VTime 200)])])))"
  by (simp add: scenario_eval)

text \<open>
  C3, amended. In every reachable state, an action \<^verbatim>\<open>forward\<close> on an existing application
  sets the status to \<^verbatim>\<open>forwarded\<close>; with a non-empty \<^verbatim>\<open>to_department = D\<close> the current
  stage becomes \<open>D\<close> and \<open>D\<close> is appended as the last element of the route history;
  with \<^verbatim>\<open>to_department\<close> left out or empty the current stage is unchanged and that
  unchanged stage is appended. This is the state the call leaves whatever it returns.
\<close>

theorem forward_effect:
  assumes "reachable s" and "ra_action ra = ''forward''"
    and "ObjectId app_id = Inr i" and "find_one (s ''application'') i = Some doc"
  shows "\<exists>res s' doc' cs rh stage.
     act_on_application app_id ra j t (Some s) = (res, Some s') \<and>
     find_one (s' ''application'') i = Some doc' \<and>
     map_of doc ''current_stage'' = Some (VStr cs) \<and>
     map_of doc ''route_history'' = Some (VList rh) \<and>
     stage = (case ra_to_department ra of
                None \<Rightarrow> cs | Some D \<Rightarrow> if D = [] then cs else D) \<and>
     map_of doc' ''status'' = Some (VStr ''forwarded'') \<and>
     map_of doc' ''current_stage'' = Some (VStr stage) \<and>
     map_of doc' ''route_history'' = Some (VList (rh @ [VStr stage]))"
proof -
  have inv: "store_inv s" using assms(1) by (rule reachable_store_inv)
  from act_on_existing [OF inv assms(3,4), of ra j t] obtain body st cs u d c where
    e: "doc = stored_doc (i, body)" "wf_app body"
       "act_transition ra doc = (st, cs, u)" "apply_update u body = Inr d"
       "find_one c i = Some (stored_doc (i, d))"
    and out: "act_on_application app_id ra j t (Some s) =
             (case action_status_update app_id ra of
                Inl e \<Rightarrow> (Inl e, Some (s(''application'' := c)))
              | Inr su \<Rightarrow>
                  if j \<in> ids (s ''statusupdate'')
                  then (Inl DuplicateKeyError, Some (s(''application'' := c)))
                  else (Inr [(''id'', VStr app_id), (''status'', st), (''current_stage'', cs)],
                        Some (s(''application'' := c,
                                ''statusupdate'' := s ''statusupdate'' @
                                   [(j, stored_body (EStatusUpdate su) t)]))))"
    by blast
  from act_outcome_application [OF out] obtain res s' where
    s': "act_on_application app_id ra j t (Some s) = (res, Some s')" "s' ''application'' = c"
    by blast
  from e(2) obtain st0 cs0 rh where
    b: "map_of body ''status'' = Some (VStr st0)"
       "map_of body ''current_stage'' = Some (VStr cs0)"
       "map_of body ''route_history'' = Some (VList rh)"
    by (auto simp: wf_app_def)
  let ?stage = "case ra_to_department ra of
                None \<Rightarrow> cs0 | Some D \<Rightarrow> if D = [] then cs0 else D"
  have g: "dict_get doc ''current_stage'' (VStr ''coordinator'') = VStr cs0"
    using b e(1) by (simp add: dict_get_def map_of_stored_doc)
  from e(3) assms(2) g have u: "u = \<lparr> upd_set = [(''status'', VStr ''forwarded''),
        (''current_stage'', VStr ?stage)], upd_push = [(''route_history'', VStr ?stage)] \<rparr>"
    by (auto simp: act_transition_forward str_or_cases)
  from e(4) have d: "d = AList.update ''route_history'' (VList (rh @ [VStr ?stage]))
                (AList.update ''current_stage'' (VStr ?stage)
                   (AList.update ''status'' (VStr ''forwarded'') body))"
    unfolding u apply_update_forward [OF b(3)] by simp
  have a: "map_of doc ''current_stage'' = Some (VStr cs0)"
     "map_of doc ''route_history'' = Some (VList rh)"
    using b e(1) by (simp_all add: map_of_stored_doc)
  have z: "map_of (stored_doc (i, d)) ''status'' = Some (VStr ''forwarded'')"
    "map_of (stored_doc (i, d)) ''current_stage'' = Some (VStr ?stage)"
    "map_of (stored_doc (i, d)) ''route_history'' = Some (VList (rh @ [VStr ?stage]))"
    unfolding d by (simp_all add: map_of_stored_doc update_conv')
  from s' e(5) a z show ?thesis by blast
qed

theorem forward_effect_witness:
  "reachable scenario_db \<and> ra_action scenario_forward = ''forward'' \<and>
   ObjectId ''0102030405060708090a0b0c'' = Inr scenario_app_oid \<and>
   find_one (scenario_db ''application'') scenario_app_oid =
     Some (stored_doc (scenario_app_oid, serialize (EApplication scenario_application))) \<and>
   ra_to_department scenario_forward = Some ''hod'' \<and>
   (\<exists>res s' doc'.
      act_on_application ''0102030405060708090a0b0c'' scenario_forward (scenario_su_oid 2) 200
        (Some scenario_db) = (res, Some s') \<and>
      find_one (s' ''application'') scenario_app_oid = Some doc' \<and>
      map_of doc' ''status'' = Some (VStr ''forwarded'') \<and>
      map_of doc' ''current_stage'' = Some (VStr ''hod'') \<and>
      map_of doc' ''route_history'' = Some (VList [VStr ''hod'']))"
proof -
  have h: "ra_action scenario_forward = ''forward''"
    "find_one (scenario_db ''application'') scenario_app_oid =
       Some (stored_doc (scenario_app_oid, serialize (EApplication scenario_application)))"
    "ra_to_department scenario_forward = Some ''hod''"
    by (simp_all add: scenario_forward_def find_one_def scenario_find del: serialize.simps)
  from forward_effect [OF reachable_scenario_db h(1) scenario_ObjectId h(2),
      of "scenario_su_oid 2" 200]
  obtain res s' doc' cs rh where
    e: "act_on_application ''0102030405060708090a0b0c'' scenario_forward (scenario_su_oid 2) 200
        (Some scenario_db) = (res, Some s')"
       "find_one (s' ''application'') scenario_app_oid = Some doc'"
       "map_of (stored_doc (scenario_app_oid, serialize (EApplication scenario_application)))
          ''current_stage'' = Some (VStr cs)"
       "map_of (stored_doc (scenario_app_oid, serialize (EApplication scenario_application)))
          ''route_history'' = Some (VList rh)"
       "map_of doc' ''status'' = Some (VStr ''forwarded'')"
       "map_of doc' ''current_stage'' = Some (VStr ''hod'')"
       "map_of doc' ''route_history'' = Some (VList (rh @ [VStr ''hod'']))"
    by (auto simp: h(3))
  from e(4) have "rh = []"
    by (simp add: stored_doc_def scenario_application_def)
  with e reachable_scenario_db scenario_ObjectId h show ?thesis by auto
qed


subsection \<open>C8: the route history grows; status and stage are written by one update\<close>

lemma act_success_existing:
  assumes "act_on_application app_id ra j t (Some s) = (Inr r, st')"
  shows "\<exists>i doc. ObjectId app_id = Inr i \<and> find_one (s ''application'') i = Some doc"
proof (cases "ObjectId app_id")
  case (Inl e)
  with assms show ?thesis by (simp add: act_on_application_invalid)
next
  case (Inr i)
  show ?thesis
  proof (cases "find_one (s ''application'') i")
    case None
    with assms Inr show ?thesis
      by (simp add: act_on_application_not_found find_one_None)
  next
    case (Some doc)
    with Inr show ?thesis by blast
  qed
qed

lemma act_on_application_logged_found:
  assumes "ObjectId app_id = Inr i"
    and "find (\<lambda>p. fst p = i) (s ''application'') = Some p"
    and "act_transition ra (stored_doc p) = (st, cs, u)"
    and "update_one (s ''application'') i u = Inr c"
  shows "act_on_application_logged app_id ra j t (Some s) =
     (case action_status_update app_id ra of
        Inl e \<Rightarrow> ((Inl e, Some (s(''application'' := c))), [Update_op ''application'' i u])
      | Inr su \<Rightarrow>
          if j \<in> ids (s ''statusupdate'')
          then ((Inl DuplicateKeyError, Some (s(''application'' := c))),
                [Update_op ''application'' i u,
                 Insert_op ''statusupdate'' j (stored_body (EStatusUpdate su) t)])
          else ((Inr [(''id'', VStr app_id), (''status'', st), (''current_stage'', cs)],
                 Some (s(''application'' := c,
                         ''statusupdate'' := s ''statusupdate'' @
                            [(j, stored_body (EStatusUpdate su) t)]))),
                [Update_op ''application'' i u,
                 Insert_op ''statusupdate'' j (stored_body (EStatusUpdate su) t)]))"
  using assms
  by (simp add: act_on_application_logged_def find_one_def stored_doc_not_empty
      create_document_Some Let_def del: stored_body.simps split: sum.splits)

lemma scenario_forward_logged:
  "act_on_application_logged ''0102030405060708090a0b0c'' scenario_forward (scenario_su_oid 2)
     200 (Some scenario_db)
   = ((Inr [(''id'', VStr ''0102030405060708090a0b0c''), (''status'', VStr ''forwarded''),
            (''current_stage'', VStr ''hod'')],
       Some (scenario_db
         (''application'' :=
            [(scenario_app_oid,
              [(''student_id'', VStr ''S1''), (''student_name'', VStr ''Asha''),
               (''student_email'', VStr ''asha@college.edu''),
               (''department_code'', VStr ''CSE''), (''category'', VStr ''leave_request''),
               (''title'', VStr ''Leave''), (''description'', VStr ''Two days of leave''),
               (''attachments'', VList []), (''status'', VStr ''forwarded''),
               (''current_stage'', VStr ''hod''),
               (''route_history'', VList [VStr ''hod''])])],
          ''statusupdate'' := scenario_db ''statusupdate'' @
            [(scenario_su_oid 2,
              [(''application_id'', VStr ''0102030405060708090a0b0c''),
               (''actor_role'', VStr ''coordinator''), (''actor_name'', VStr ''Ravi''),
               (''action'', VStr ''forward''), (''to_department'', VStr ''hod''),
               (''created_at'', VTime 200)])]))),
      [Update_op ''application'' scenario_app_oid
         \<lparr> upd_set = [(''status'', VStr ''forwarded''), (''current_stage'', VStr ''hod'')],
           upd_push = [(''route_history'', VStr ''hod'')] \<rparr>,
       Insert_op ''statusupdate'' (scenario_su_oid 2)
         [(''application_id'', VStr ''0102030405060708090a0b0c''),
          (''actor_role'', VStr ''coordinator''), (''actor_name'', VStr ''Ravi''),
          (''action'', VStr ''forward''), (''to_department'', VStr ''hod''),
          (''created_at'', VTime 200)]])"
  by (simp add: act_on_application_logged_def scenario_eval)

text \<open>An approval sends one update as well; it sets the status alone, and the stage keeps
  its value.\<close>

lemma scenario_approve_logged:
  "act_on_application_logged ''0102030405060708090a0b0c'' scenario_approve (scenario_su_oid 2)
     200 (Some scenario_db)
   = ((Inr [(''id'', VStr ''0102030405060708090a0b0c''), (''status'', VStr ''approved''),
            (''current_stage'', VStr ''coordinator'')],
       Some (scenario_db
         (''application'' :=
            [(scenario_app_oid,
              [(''student_id'', VStr ''S1''), (''student_name'', VStr ''Asha''),
               (''student_email'', VStr ''asha@college.edu''),
               (''department_code'', VStr ''CSE''), (''category'', VStr ''leave_request''),
               (''title'', VStr ''Leave''), (''description'', VStr ''Two days of leave''),
               (''attachments'', VList []), (''status'', VStr ''approved''),
               (''current_stage'', VStr ''coordinator''),
               (''route_history'', VList [])])],
          ''statusupdate'' := scenario_db ''statusupdate'' @
            [(scenario_su_oid 2,
              [(''application_id'', VStr ''0102030405060708090a0b0c''),
               (''actor_role'', VStr ''hod''), (''actor_name'', VStr ''Meera''),
               (''action'', VStr ''approve''), (''comments'', VStr ''ok''),
               (''created_at'', VTime 200)])]))),
      [Update_op ''application'' scenario_app_oid
         \<lparr> upd_set = [(''status'', VStr ''approved'')], upd_push = [] \<rparr>,
       Insert_op ''statusupdate'' (scenario_su_oid 2)
         [(''application_id'', VStr ''0102030405060708090a0b0c''),
          (''actor_role'', VStr ''hod''), (''actor_name'', VStr ''Meera''),
          (''action'', VStr ''approve''), (''comments'', VStr ''ok''),
          (''created_at'', VTime 200)]])"
  by (simp add: act_on_application_logged_def scenario_eval)

text \<open>
  C8. In every reachable state and for every successful action call, with the write
  requests the call sends to the store listed: the application existed; its route history
  before the call is a prefix of its route history after it, and no other application
  changes. The call sends exactly one document update, to that application, followed by
  the insertion of the status update. That one update sets \<^verbatim>\<open>status\<close>, and after it the
  application has the status and the stage that the call returns. Whenever the stage of
  the application changes, the new stage is set by that same update; this is the update
  of a \<^verbatim>\<open>forward\<close>, which sets both fields; the update of any other action sets the status
  alone and the stage keeps its value.
\<close>

theorem route_history_grows:
  assumes "reachable s"
    and "act_on_application_logged app_id ra j t (Some s) = ((Inr r, Some s'), ws)"
  shows "\<exists>i doc doc' rh rh' st cs u body.
     act_on_application app_id ra j t (Some s) = (Inr r, Some s') \<and>
     ObjectId app_id = Inr i \<and>
     find_one (s ''application'') i = Some doc \<and>
     find_one (s' ''application'') i = Some doc' \<and>
     map_of doc ''route_history'' = Some (VList rh) \<and>
     map_of doc' ''route_history'' = Some (VList rh') \<and> prefix rh rh' \<and>
     (\<forall>k. k \<noteq> i \<longrightarrow> find_one (s' ''application'') k = find_one (s ''application'') k) \<and>
     ws = [Update_op ''application'' i u, Insert_op ''statusupdate'' j body] \<and>
     r = [(''id'', VStr app_id), (''status'', st), (''current_stage'', cs)] \<and>
     map_of (upd_set u) ''status'' = Some st \<and>
     map_of doc' ''status'' = Some st \<and>
     map_of doc' ''current_stage'' = Some cs \<and>
     (map_of doc' ''current_stage'' \<noteq> map_of doc ''current_stage'' \<longrightarrow>
        map_of (upd_set u) ''current_stage'' = Some cs) \<and>
     (ra_action ra = ''forward'' \<longrightarrow> map_of (upd_set u) ''current_stage'' = Some cs) \<and>
     (ra_action ra \<noteq> ''forward'' \<longrightarrow>
        upd_set u = [(''status'', st)] \<and> upd_push u = [] \<and>
        map_of doc' ''current_stage'' = map_of doc ''current_stage'')"
proof -
  have inv: "store_inv s" using assms(1) by (rule reachable_store_inv)
  have act: "act_on_application app_id ra j t (Some s) = (Inr r, Some s')"
    using assms(2) act_on_application_logged_fst [of app_id ra j t "Some s"] by simp
  from act_success_existing [OF act] obtain i doc where
    i: "ObjectId app_id = Inr i" "find_one (s ''application'') i = Some doc" by blast
  from i(2) obtain p where p: "find (\<lambda>p. fst p = i) (s ''application'') = Some p"
    "doc = stored_doc p"
    by (auto simp: find_one_Some)
  from act_on_existing [OF inv i, of ra j t] obtain body st cs u d c where
    e: "doc = stored_doc (i, body)" "wf_app body"
       "act_transition ra doc = (st, cs, u)" "apply_update u body = Inr d"
       "update_one (s ''application'') i u = Inr c"
       "find_one c i = Some (stored_doc (i, d))"
       "\<forall>k. k \<noteq> i \<longrightarrow> find_one c k = find_one (s ''application'') k"
    and out: "act_on_application app_id ra j t (Some s) =
             (case action_status_update app_id ra of
                Inl e \<Rightarrow> (Inl e, Some (s(''application'' := c)))
              | Inr su \<Rightarrow>
                  if j \<in> ids (s ''statusupdate'')
                  then (Inl DuplicateKeyError, Some (s(''application'' := c)))
                  else (Inr [(''id'', VStr app_id), (''status'', st), (''current_stage'', cs)],
                        Some (s(''application'' := c,
                                ''statusupdate'' := s ''statusupdate'' @
                                   [(j, stored_body (EStatusUpdate su) t)]))))"
    by blast
  from act_outcome_application [OF out] act have c: "s' ''application'' = c" by simp
  from out act have r: "r = [(''id'', VStr app_id), (''status'', st), (''current_stage'', cs)]"
    by (auto split: sum.splits if_splits)
  have tr: "act_transition ra (stored_doc p) = (st, cs, u)"
    using e(3) p(2) by simp
  from act_on_application_logged_found [where s = s and j = j and t = t, OF i(1) p(1) tr e(5)]
    assms(2)
  have "\<exists>body. ws = [Update_op ''application'' i u, Insert_op ''statusupdate'' j body]"
    by (auto split: sum.splits if_splits)
  then obtain sbody where
    ws: "ws = [Update_op ''application'' i u, Insert_op ''statusupdate'' j sbody]" by blast
  from e(2) obtain st0 cs0 rh where b: "map_of body ''status'' = Some (VStr st0)"
    "map_of body ''current_stage'' = Some (VStr cs0)"
    "map_of body ''route_history'' = Some (VList rh)"
    by (auto simp: wf_app_def)
  have a: "map_of doc ''route_history'' = Some (VList rh)"
    "map_of doc ''current_stage'' = Some (VStr cs0)"
    using b e(1) by (simp_all add: map_of_stored_doc)
  have g: "dict_get doc ''current_stage'' (VStr ''coordinator'') = VStr cs0"
    using b e(1) by (simp add: dict_get_def map_of_stored_doc)
  have "\<exists>rh'. map_of (stored_doc (i, d)) ''route_history'' = Some (VList rh') \<and>
      prefix rh rh' \<and>
      map_of (upd_set u) ''status'' = Some st \<and>
      map_of (stored_doc (i, d)) ''status'' = Some st \<and>
      map_of (stored_doc (i, d)) ''current_stage'' = Some cs \<and>
      (map_of (stored_doc (i, d)) ''current_stage'' \<noteq> map_of doc ''current_stage'' \<longrightarrow>
         map_of (upd_set u) ''current_stage'' = Some cs) \<and>
      (ra_action ra = ''forward'' \<longrightarrow> map_of (upd_set u) ''current_stage'' = Some cs) \<and>
      (ra_action ra \<noteq> ''forward'' \<longrightarrow>
         upd_set u = [(''status'', st)] \<and> upd_push u = [] \<and>
         map_of (stored_doc (i, d)) ''current_stage'' = map_of doc ''current_stage'')"
  proof (cases "ra_action ra = ''forward''")
    case True
    from e(3) True have u: "u = \<lparr> upd_set = [(''status'', st), (''current_stage'', cs)],
        upd_push = [(''route_history'', cs)] \<rparr>"
      by (auto simp: act_transition_forward)
    from e(4) have "d = AList.update ''route_history'' (VList (rh @ [cs]))
                (AList.update ''current_stage'' cs (AList.update ''status'' st body))"
      unfolding u apply_update_forward [OF b(3)] by simp
    then have "map_of (stored_doc (i, d)) ''route_history'' = Some (VList (rh @ [cs]))"
      "map_of (stored_doc (i, d)) ''status'' = Some st"
      "map_of (stored_doc (i, d)) ''current_stage'' = Some cs"
      by (simp_all add: map_of_stored_doc update_conv')
    with True u show ?thesis by simp
  next
    case False
    from e(3) False g obtain x where
      u: "u = \<lparr> upd_set = [(''status'', VStr x)], upd_push = [] \<rparr>"
      and st: "st = VStr x" and cs: "cs = VStr cs0"
      by (auto simp: act_transition_other)
    from e(4) have "d = AList.update ''status'' (VStr x) body"
      unfolding u apply_update_status by simp
    then have "map_of (stored_doc (i, d)) ''route_history'' = Some (VList rh)"
      "map_of (stored_doc (i, d)) ''status'' = Some st"
      "map_of (stored_doc (i, d)) ''current_stage'' = Some cs"
      using b st cs by (simp_all add: map_of_stored_doc update_conv')
    with False u st cs a(2) show ?thesis by simp
  qed
  with act i e(6,7) a(1) c ws r show ?thesis by blast
qed

theorem route_history_grows_witness:
  "reachable scenario_db \<and>
   ra_action scenario_forward = ''forward'' \<and>
   (\<exists>s' ws i doc doc' rh rh' st cs u body.
      act_on_application_logged ''0102030405060708090a0b0c'' scenario_forward
        (scenario_su_oid 2) 200 (Some scenario_db) =
        ((Inr [(''id'', VStr ''0102030405060708090a0b0c''), (''status'', VStr ''forwarded''),
               (''current_stage'', VStr ''hod'')], Some s'), ws) \<and>
      find_one (scenario_db ''application'') i = Some doc \<and>
      find_one (s' ''application'') i = Some doc' \<and>
      map_of doc ''route_history'' = Some (VList rh) \<and>
      map_of doc' ''route_history'' = Some (VList rh') \<and> prefix rh rh' \<and>
      ws = [Update_op ''application'' i u, Insert_op ''statusupdate'' (scenario_su_oid 2) body] \<and>
      map_of (upd_set u) ''status'' = Some st \<and>
      map_of (upd_set u) ''current_stage'' = Some cs \<and>
      map_of doc' ''status'' = Some st \<and>
      map_of doc' ''current_stage'' = Some cs)"
proof -
  have f: "ra_action scenario_forward = ''forward''"
    by (simp add: scenario_forward_def)
  from route_history_grows [OF reachable_scenario_db scenario_forward_logged] f
    scenario_forward_logged reachable_scenario_db
  show ?thesis by blast
qed


subsection \<open>C1: any other action\<close>

lemma action_status_update_cases:
  "action_status_update app_id ra =
     (case (role_of_str (ra_actor_role ra), su_action_of_str (ra_action ra)) of
        (Some r, Some a) \<Rightarrow>
          Inr \<lparr> su_application_id = app_id, su_actor_role = r,
                su_actor_name = ra_actor_name ra, su_action = a,
                su_comments = ra_comments ra, su_to_department = ra_to_department ra,
                su_created_at = None \<rparr>
      | _ \<Rightarrow> Inl ValidationError)"
  by (simp add: action_status_update_def StatusUpdate_init_def)

text \<open>
  For an action other than \<^verbatim>\<open>forward\<close>, \<^verbatim>\<open>approve\<close> and \<^verbatim>\<open>reject\<close> on an existing
  application the status is always set to \<^verbatim>\<open>under_review\<close> and the stage is kept. The call
  returns both exactly when \<^verbatim>\<open>actor_role\<close> and \<^verbatim>\<open>action\<close> are values of the literals of
  \<^verbatim>\<open>StatusUpdate\<close> (and the store accepts the new record); otherwise the constructor of
  \<^verbatim>\<open>StatusUpdate\<close> raises after the status has been written.
\<close>

lemma other_action_effect:
  assumes "reachable s"
    and "ra_action ra \<noteq> ''forward''" and "ra_action ra \<noteq> ''approve''"
    and "ra_action ra \<noteq> ''reject''"
    and "ObjectId app_id = Inr i" and "find_one (s ''application'') i = Some doc"
  shows "\<exists>res s' doc' cs.
     act_on_application app_id ra j t (Some s) = (res, Some s') \<and>
     find_one (s' ''application'') i = Some doc' \<and>
     map_of doc ''current_stage'' = Some (VStr cs) \<and>
     map_of doc' ''status'' = Some (VStr ''under_review'') \<and>
     map_of doc' ''current_stage'' = Some (VStr cs) \<and>
     res = (if role_of_str (ra_actor_role ra) = None \<or> su_action_of_str (ra_action ra) = None
            then Inl ValidationError
            else if j \<in> ids (s ''statusupdate'') then Inl DuplicateKeyError
            else Inr [(''id'', VStr app_id), (''status'', VStr ''under_review''),
                      (''current_stage'', VStr cs)])"
proof -
  have inv: "store_inv s" using assms(1) by (rule reachable_store_inv)
  from act_on_existing [OF inv assms(5,6), of ra j t] obtain body st cs u d c where
    e: "doc = stored_doc (i, body)" "wf_app body"
       "act_transition ra doc = (st, cs, u)" "apply_update u body = Inr d"
       "find_one c i = Some (stored_doc (i, d))"
    and out: "act_on_application app_id ra j t (Some s) =
             (case action_status_update app_id ra of
                Inl e \<Rightarrow> (Inl e, Some (s(''application'' := c)))
              | Inr su \<Rightarrow>
                  if j \<in> ids (s ''statusupdate'')
                  then (Inl DuplicateKeyError, Some (s(''application'' := c)))
                  else (Inr [(''id'', VStr app_id), (''status'', st), (''current_stage'', cs)],
                        Some (s(''application'' := c,
                                ''statusupdate'' := s ''statusupdate'' @
                                   [(j, stored_body (EStatusUpdate su) t)]))))"
    by blast
  from e(2) obtain cs0 where cs0: "map_of body ''current_stage'' = Some (VStr cs0)"
    by (auto simp: wf_app_def)
  have g: "dict_get doc ''current_stage'' (VStr ''coordinator'') = VStr cs0"
    using cs0 e(1) by (simp add: dict_get_def map_of_stored_doc)
  from e(3) assms(2,3,4) g have t: "st = VStr ''under_review''" "cs = VStr cs0"
    "u = \<lparr> upd_set = [(''status'', VStr ''under_review'')], upd_push = [] \<rparr>"
    by (auto simp: act_transition_other)
  from e(4) have d: "d = AList.update ''status'' (VStr ''under_review'') body"
    unfolding t(3) apply_update_status by simp
  have z: "map_of doc ''current_stage'' = Some (VStr cs0)"
    "map_of (stored_doc (i, d)) ''status'' = Some (VStr ''under_review'')"
    "map_of (stored_doc (i, d)) ''current_stage'' = Some (VStr cs0)"
    using cs0 e(1) unfolding d by (simp_all add: map_of_stored_doc update_conv')
  let ?res = "if role_of_str (ra_actor_role ra) = None \<or> su_action_of_str (ra_action ra) = None
            then Inl ValidationError
            else if j \<in> ids (s ''statusupdate'') then Inl DuplicateKeyError
            else Inr [(''id'', VStr app_id), (''status'', VStr ''under_review''),
                      (''current_stage'', VStr cs0)]"
  from out t(1,2) have "\<exists>s'. act_on_application app_id ra j t (Some s) = (?res, Some s') \<and>
      s' ''application'' = c"
    by (auto simp: action_status_update_cases split: option.splits)
  with e(5) z show ?thesis by blast
qed

text \<open>
  C1. The claim fails at an action outside the literal of \<^verbatim>\<open>StatusUpdate.action\<close>, here
  \<^verbatim>\<open>escalate\<close>: the status of the application is set to \<^verbatim>\<open>under_review\<close>, then the call
  ends with a validation error; it returns nothing and logs no status update.
\<close>

theorem review_with_unlisted_action:
  "act_on_application ''0102030405060708090a0b0c''
     \<lparr> ra_actor_role = ''hod'', ra_actor_name = ''Meera'', ra_action = ''escalate'',
       ra_comments = None, ra_to_department = None \<rparr>
     (scenario_su_oid 2) 200 (Some scenario_db)
   = (Inl ValidationError,
      Some (scenario_db
        (''application'' :=
           [(scenario_app_oid,
             [(''student_id'', VStr ''S1''), (''student_name'', VStr ''Asha''),
              (''student_email'', VStr ''asha@college.edu''),
              (''department_code'', VStr ''CSE''), (''category'', VStr ''leave_request''),
              (''title'', VStr ''Leave''), (''description'', VStr ''Two days of leave''),
              (''attachments'', VList []), (''status'', VStr ''under_review''),
              (''current_stage'', VStr ''coordinator''),
              (''route_history'', VList [])])])))"
  by (simp add: scenario_eval)

subsection \<open>C5: approve and reject\<close>

text \<open>
  For \<^verbatim>\<open>approve\<close> and \<^verbatim>\<open>reject\<close> on an existing application, with an \<^verbatim>\<open>actor_role\<close> of the
  literal of \<^verbatim>\<open>StatusUpdate\<close> and a fresh identifier for the new record: only \<^verbatim>\<open>status\<close>
  changes in the application, no other application and no other collection changes, and
  one status update is added.
\<close>

lemma approve_reject_effect:
  assumes "reachable s"
    and "ra_action ra = ''approve'' \<or> ra_action ra = ''reject''"
    and "ObjectId app_id = Inr i" and "find_one (s ''application'') i = Some doc"
    and "role_of_str (ra_actor_role ra) = Some role" and "j \<notin> ids (s ''statusupdate'')"
  shows "\<exists>s' doc' cs body.
     act_on_application app_id ra j t (Some s) =
       (Inr [(''id'', VStr app_id),
             (''status'', VStr (if ra_action ra = ''approve'' then ''approved'' else ''rejected'')),
             (''current_stage'', VStr cs)], Some s') \<and>
     find_one (s' ''application'') i = Some doc' \<and>
     map_of doc ''current_stage'' = Some (VStr cs) \<and>
     map_of doc' = (map_of doc)
       (''status'' \<mapsto> VStr (if ra_action ra = ''approve'' then ''approved'' else ''rejected'')) \<and>
     (\<forall>k. k \<noteq> i \<longrightarrow> find_one (s' ''application'') k = find_one (s ''application'') k) \<and>
     s' ''statusupdate'' = s ''statusupdate'' @ [(j, body)] \<and>
     (\<forall>coll. coll \<noteq> ''application'' \<and> coll \<noteq> ''statusupdate'' \<longrightarrow> s' coll = s coll)"
proof -
  let ?x = "if ra_action ra = ''approve'' then ''approved'' else ''rejected''"
  have inv: "store_inv s" using assms(1) by (rule reachable_store_inv)
  from act_on_existing [OF inv assms(3,4), of ra j t] obtain body st cs u d c where
    e: "doc = stored_doc (i, body)" "wf_app body"
       "act_transition ra doc = (st, cs, u)" "apply_update u body = Inr d"
       "find_one c i = Some (stored_doc (i, d))"
       "\<forall>k. k \<noteq> i \<longrightarrow> find_one c k = find_one (s ''application'') k"
    and out: "act_on_application app_id ra j t (Some s) =
             (case action_status_update app_id ra of
                Inl e \<Rightarrow> (Inl e, Some (s(''application'' := c)))
              | Inr su \<Rightarrow>
                  if j \<in> ids (s ''statusupdate'')
                  then (Inl DuplicateKeyError, Some (s(''application'' := c)))
                  else (Inr [(''id'', VStr app_id), (''status'', st), (''current_stage'', cs)],
                        Some (s(''application'' := c,
                                ''statusupdate'' := s ''statusupdate'' @
                                   [(j, stored_body (EStatusUpdate su) t)]))))"
    by blast
  from e(2) obtain cs0 where cs0: "map_of body ''current_stage'' = Some (VStr cs0)"
    by (auto simp: wf_app_def)
  have g: "dict_get doc ''current_stage'' (VStr ''coordinator'') = VStr cs0"
    using cs0 e(1) by (simp add: dict_get_def map_of_stored_doc)
  from e(3) assms(2) g have t: "st = VStr ?x" "cs = VStr cs0"
    "u = \<lparr> upd_set = [(''status'', VStr ?x)], upd_push = [] \<rparr>"
    by (auto simp: act_transition_other)
  from e(4) have d: "d = AList.update ''status'' (VStr ?x) body"
    unfolding t(3) apply_update_status by simp
  have m: "map_of (stored_doc (i, d)) = (map_of doc)(''status'' \<mapsto> VStr ?x)"
    unfolding d e(1) by (auto simp: stored_doc_def update_conv' fun_eq_iff)
  have z: "map_of doc ''current_stage'' = Some (VStr cs0)"
    using cs0 e(1) by (simp add: map_of_stored_doc)
  obtain a where a: "su_action_of_str (ra_action ra) = Some a"
    using assms(2) by (auto simp: su_action_of_str_def)
  let ?su = "\<lparr> su_application_id = app_id, su_actor_role = role,
                su_actor_name = ra_actor_name ra, su_action = a,
                su_comments = ra_comments ra, su_to_department = ra_to_department ra,
                su_created_at = None \<rparr>"
  let ?s' = "s(''application'' := c,
               ''statusupdate'' := s ''statusupdate'' @ [(j, stored_body (EStatusUpdate ?su) t)])"
  from out t(1,2) assms(5,6) a have r: "act_on_application app_id ra j t (Some s) =
       (Inr [(''id'', VStr app_id), (''status'', VStr ?x), (''current_stage'', VStr cs0)],
        Some ?s')"
    by (simp add: action_status_update_cases del: serialize.simps stored_body.simps)
  have p: "find_one (?s' ''application'') i = Some (stored_doc (i, d))"
    "\<forall>k. k \<noteq> i \<longrightarrow> find_one (?s' ''application'') k = find_one (s ''application'') k"
    "?s' ''statusupdate'' = s ''statusupdate'' @ [(j, stored_body (EStatusUpdate ?su) t)]"
    "\<forall>coll. coll \<noteq> ''application'' \<and> coll \<noteq> ''statusupdate'' \<longrightarrow> ?s' coll = s coll"
    using e(5,6) by simp_all
  from r p m z show ?thesis by blast
qed

text \<open>
  C5. The claim fails at an \<^verbatim>\<open>actor_role\<close> outside the literal of
  \<^verbatim>\<open>StatusUpdate.actor_role\<close>, here \<^verbatim>\<open>dean\<close>: the status is set to \<^verbatim>\<open>approved\<close>, then the
  constructor of \<^verbatim>\<open>StatusUpdate\<close> raises; no status update is added.
\<close>

theorem approve_with_unlisted_role:
  "act_on_application ''0102030405060708090a0b0c''
     \<lparr> ra_actor_role = ''dean'', ra_actor_name = ''Meera'', ra_action = ''approve'',
       ra_comments = None, ra_to_department = None \<rparr>
     (scenario_su_oid 2) 200 (Some scenario_db)
   = (Inl ValidationError,
      Some (scenario_db
        (''application'' :=
           [(scenario_app_oid,
             [(''student_id'', VStr ''S1''), (''student_name'', VStr ''Asha''),
              (''student_email'', VStr ''asha@college.edu''),
              (''department_code'', VStr ''CSE''), (''category'', VStr ''leave_request''),
              (''title'', VStr ''Leave''), (''description'', VStr ''Two days of leave''),
              (''attachments'', VList []), (''status'', VStr ''approved''),
              (''current_stage'', VStr ''coordinator''),
              (''route_history'', VList [])])])))"
  by (simp add: scenario_eval)

section \<open>The creation time of a status update\<close>

text \<open>What a call of a handler does to the collection of the status updates: nothing, or
  one record appended, stored with the time of the server.\<close>

lemma create_document_keeps_status_updates:
  assumes "coll \<noteq> ''statusupdate''"
    and "create_document coll e i t (Some s) = (r, Some s')"
  shows "s' ''statusupdate'' = s ''statusupdate''"
  using assms by (auto simp: create_document_Some split: if_splits)

lemma submit_status_updates:
  assumes "submit_application a i j t t' (Some s) = (r, Some s')"
  shows "s' ''statusupdate'' = s ''statusupdate'' \<or>
     (\<exists>su. s' ''statusupdate'' = s ''statusupdate'' @ [(j, stored_body (EStatusUpdate su) t')])"
  using assms
  by (auto simp: submit_application_Some split: if_splits
      simp del: serialize.simps stored_body.simps)

lemma act_status_updates:
  assumes inv: "store_inv s"
    and act: "act_on_application app_id ra j t (Some s) = (r, Some s')"
  shows "s' ''statusupdate'' = s ''statusupdate'' \<or>
     (\<exists>su. s' ''statusupdate'' = s ''statusupdate'' @ [(j, stored_body (EStatusUpdate su) t)])"
proof (cases "ObjectId app_id")
  case (Inl e)
  with act show ?thesis by (simp add: act_on_application_invalid)
next
  case (Inr i)
  show ?thesis
  proof (cases "find_one (s ''application'') i")
    case None
    then have "i \<notin> ids (s ''application'')" by (simp add: find_one_None)
    with act Inr show ?thesis by (simp add: act_on_application_not_found)
  next
    case (Some doc)
    from act_on_existing [OF inv Inr Some, of ra j t] obtain st cs c where
      "act_on_application app_id ra j t (Some s) =
             (case action_status_update app_id ra of
                Inl e \<Rightarrow> (Inl e, Some (s(''application'' := c)))
              | Inr su \<Rightarrow>
                  if j \<in> ids (s ''statusupdate'')
                  then (Inl DuplicateKeyError, Some (s(''application'' := c)))
                  else (Inr [(''id'', VStr app_id), (''status'', st), (''current_stage'', cs)],
                        Some (s(''application'' := c,
                                ''statusupdate'' := s ''statusupdate'' @
                                   [(j, stored_body (EStatusUpdate su) t)]))))"
      by blast
    with act show ?thesis
      by (auto split: sum.splits if_splits simp del: stored_body.simps)
  qed
qed

lemma dated_append:
  assumes "\<forall>p \<in> set c. \<exists>t. map_of (snd p) ''created_at'' = Some (VTime t)"
    and "c' = c \<or> (\<exists>su. c' = c @ [(j, stored_body (EStatusUpdate su) t)])"
  shows "\<forall>p \<in> set c'. \<exists>t. map_of (snd p) ''created_at'' = Some (VTime t)"
  using assms by (auto simp: stored_body_status_update(1) simp del: stored_body.simps)

lemma reachable_status_updates_dated:
  "reachable s \<Longrightarrow>
   \<forall>p \<in> set (s ''statusupdate''). \<exists>t. map_of (snd p) ''created_at'' = Some (VTime t)"
proof (induction rule: reachable.induct)
  case r_init
  show ?case by (simp add: empty_db_def)
next
  case (r_dept s d i t r s')
  then show ?case
    by (auto simp: create_department_def split: prod.splits sum.splits
        dest!: create_document_keeps_status_updates [rotated])
next
  case (r_user s u i t r s')
  then show ?case
    by (auto simp: create_user_def split: prod.splits sum.splits
        dest!: create_document_keeps_status_updates [rotated])
next
  case (r_notify s n i t r s')
  then show ?case
    by (auto simp: notify_def split: prod.splits sum.splits
        dest!: create_document_keeps_status_updates [rotated])
next
  case (r_submit s i j a t t' r s')
  from dated_append [OF r_submit.IH submit_status_updates [OF r_submit.hyps(4)]]
  show ?case .
next
  case (r_act s j app_id ra t r s')
  from dated_append [OF r_act.IH
      act_status_updates [OF reachable_store_inv [OF r_act.hyps(1)] r_act.hyps(3)]]
  show ?case .
qed

lemma scenario_timeline:
  "get_timeline ''0102030405060708090a0b0c'' (Some scenario_db) =
     Inr [[(''application_id'', VStr ''0102030405060708090a0b0c''),
           (''actor_role'', VStr ''student''), (''actor_name'', VStr ''Asha''),
           (''action'', VStr ''submit''), (''comments'', VStr ''Application submitted''),
           (''created_at'', VTime 100), (''id'', VStr ''000000000000000000000001'')]]"
  by code_simp

text \<open>
  C10. The claim fails at the submission of the scenario: the handler constructs the
  status update with \<^verbatim>\<open>created_at\<close> left at \<^verbatim>\<open>None\<close>, and the submission stores it with
  the time of the server, 100, which is the \<^verbatim>\<open>created_at\<close> of the entry in the timeline of
  the application. The creation time that orders the timeline is set during the
  operation, by \<^verbatim>\<open>create_document\<close>.
\<close>

theorem submit_sets_creation_time:
  "submit_status_update scenario_application ''0102030405060708090a0b0c'' =
     Inr \<lparr> su_application_id = ''0102030405060708090a0b0c'', su_actor_role = Student,
           su_actor_name = ''Asha'', su_action = Submit,
           su_comments = Some ''Application submitted'', su_to_department = None,
           su_created_at = None \<rparr> \<and>
   submit_application scenario_application scenario_app_oid (scenario_su_oid 1) 100 100
     (Some empty_db)
     = (Inr [(''id'', VStr ''0102030405060708090a0b0c''), (''status'', VStr ''submitted'')],
        Some scenario_db) \<and>
   scenario_db ''statusupdate'' =
     [(scenario_su_oid 1,
       [(''application_id'', VStr ''0102030405060708090a0b0c''),
        (''actor_role'', VStr ''student''), (''actor_name'', VStr ''Asha''),
        (''action'', VStr ''submit''), (''comments'', VStr ''Application submitted''),
        (''created_at'', VTime 100)])] \<and>
   get_timeline ''0102030405060708090a0b0c'' (Some scenario_db) =
     Inr [[(''application_id'', VStr ''0102030405060708090a0b0c''),
           (''actor_role'', VStr ''student''), (''actor_name'', VStr ''Asha''),
           (''action'', VStr ''submit''), (''comments'', VStr ''Application submitted''),
           (''created_at'', VTime 100), (''id'', VStr ''000000000000000000000001'')]]"
proof (intro conjI)
  show "submit_status_update scenario_application ''0102030405060708090a0b0c'' =
     Inr \<lparr> su_application_id = ''0102030405060708090a0b0c'', su_actor_role = Student,
           su_actor_name = ''Asha'', su_action = Submit,
           su_comments = Some ''Application submitted'', su_to_department = None,
           su_created_at = None \<rparr>"
    by (simp add: submit_status_update_eq scenario_application_def)
  show "submit_application scenario_application scenario_app_oid (scenario_su_oid 1) 100 100
     (Some empty_db)
     = (Inr [(''id'', VStr ''0102030405060708090a0b0c''), (''status'', VStr ''submitted'')],
        Some scenario_db)"
    by (rule scenario_submit)
  show "scenario_db ''statusupdate'' =
     [(scenario_su_oid 1,
       [(''application_id'', VStr ''0102030405060708090a0b0c''),
        (''actor_role'', VStr ''student''), (''actor_name'', VStr ''Asha''),
        (''action'', VStr ''submit''), (''comments'', VStr ''Application submitted''),
        (''created_at'', VTime 100)])]"
    by (simp add: scenario_db_def scenario_application_def scenario_app_id opt_field_def)
  show "get_timeline ''0102030405060708090a0b0c'' (Some scenario_db) =
     Inr [[(''application_id'', VStr ''0102030405060708090a0b0c''),
           (''actor_role'', VStr ''student''), (''actor_name'', VStr ''Asha''),
           (''action'', VStr ''submit''), (''comments'', VStr ''Application submitted''),
           (''created_at'', VTime 100), (''id'', VStr ''000000000000000000000001'')]]"
    by (rule scenario_timeline)
qed

text \<open>
  C10, amended. Neither handler passes a creation time: the status update that a
  submission or an action call constructs has \<^verbatim>\<open>created_at\<close> at its default \<^verbatim>\<open>None\<close>. The
  record that the call stores is that status update with \<^verbatim>\<open>created_at\<close> set by
  \<^verbatim>\<open>create_document\<close> to the time of the server at the call. So in every state reachable
  through the handlers every stored status update has a creation time, and every entry of
  every timeline carries one.
\<close>

theorem status_update_creation_time:
  assumes "reachable s"
  shows
    "(submit_application a i j t t' (Some s) = (Inr r, Some s') \<longrightarrow>
        (\<exists>su. submit_status_update a (str_oid i) = Inr su \<and> su_created_at su = None \<and>
              s' ''statusupdate'' =
                s ''statusupdate'' @ [(j, stored_body (EStatusUpdate su) t')] \<and>
              map_of (stored_body (EStatusUpdate su) t') ''created_at'' = Some (VTime t'))) \<and>
     (act_on_application app_id ra k u (Some s) = (Inr r2, Some s2) \<longrightarrow>
        (\<exists>su. action_status_update app_id ra = Inr su \<and> su_created_at su = None \<and>
              s2 ''statusupdate'' =
                s ''statusupdate'' @ [(k, stored_body (EStatusUpdate su) u)] \<and>
              map_of (stored_body (EStatusUpdate su) u) ''created_at'' = Some (VTime u))) \<and>
     (\<forall>p \<in> set (s ''statusupdate'').
        \<exists>t. map_of (stored_doc p) ''created_at'' = Some (VTime t)) \<and>
     (\<exists>docs. get_timeline q (Some s) = Inr docs \<and>
        (\<forall>d \<in> set docs. \<exists>t. map_of d ''created_at'' = Some (VTime t)))"
proof (intro conjI impI)
  assume sub: "submit_application a i j t t' (Some s) = (Inr r, Some s')"
  let ?su = "\<lparr> su_application_id = str_oid i, su_actor_role = Student,
      su_actor_name = a_student_name a, su_action = Submit,
      su_comments = Some ''Application submitted'', su_to_department = None,
      su_created_at = None \<rparr>"
  from sub have "s' ''statusupdate'' =
      s ''statusupdate'' @ [(j, stored_body (EStatusUpdate ?su) t')]"
    by (auto simp: submit_application_Some split: if_splits
        simp del: serialize.simps stored_body.simps)
  then show "\<exists>su. submit_status_update a (str_oid i) = Inr su \<and> su_created_at su = None \<and>
      s' ''statusupdate'' = s ''statusupdate'' @ [(j, stored_body (EStatusUpdate su) t')] \<and>
      map_of (stored_body (EStatusUpdate su) t') ''created_at'' = Some (VTime t')"
    by (simp add: submit_status_update_eq stored_body_status_update(1)
        del: stored_body.simps)
next
  assume act: "act_on_application app_id ra k u (Some s) = (Inr r2, Some s2)"
  have inv: "store_inv s" using assms by (rule reachable_store_inv)
  from act_success_existing [OF act] obtain i doc where
    i: "ObjectId app_id = Inr i" "find_one (s ''application'') i = Some doc" by blast
  from act_on_existing [OF inv i, of ra k u] obtain st cs c where
    out: "act_on_application app_id ra k u (Some s) =
             (case action_status_update app_id ra of
                Inl e \<Rightarrow> (Inl e, Some (s(''application'' := c)))
              | Inr su \<Rightarrow>
                  if k \<in> ids (s ''statusupdate'')
                  then (Inl DuplicateKeyError, Some (s(''application'' := c)))
                  else (Inr [(''id'', VStr app_id), (''status'', st), (''current_stage'', cs)],
                        Some (s(''application'' := c,
                                ''statusupdate'' := s ''statusupdate'' @
                                   [(k, stored_body (EStatusUpdate su) u)]))))"
    by blast
  from out act obtain su where
    su: "action_status_update app_id ra = Inr su"
      "s2 ''statusupdate'' = s ''statusupdate'' @ [(k, stored_body (EStatusUpdate su) u)]"
    by (auto split: sum.splits if_splits simp del: stored_body.simps)
  from su(1) have "su_created_at su = None"
    by (simp add: action_status_update_def StatusUpdate_init_created_at)
  with su show "\<exists>su. action_status_update app_id ra = Inr su \<and> su_created_at su = None \<and>
      s2 ''statusupdate'' = s ''statusupdate'' @ [(k, stored_body (EStatusUpdate su) u)] \<and>
      map_of (stored_body (EStatusUpdate su) u) ''created_at'' = Some (VTime u)"
    by (simp add: stored_body_status_update(1) del: stored_body.simps)
next
  show "\<forall>p \<in> set (s ''statusupdate'').
      \<exists>t. map_of (stored_doc p) ''created_at'' = Some (VTime t)"
    using reachable_status_updates_dated [OF assms] by (simp add: map_of_stored_doc)
next
  show "\<exists>docs. get_timeline q (Some s) = Inr docs \<and>
      (\<forall>d \<in> set docs. \<exists>t. map_of d ''created_at'' = Some (VTime t))"
    using reachable_status_updates_dated [OF assms]
    by (auto simp: get_timeline_Some map_of_public_of)
qed

theorem status_update_creation_time_witness:
  "reachable scenario_db \<and>
   (\<exists>r s' su.
      submit_application scenario_application [1, 1, 1, 1, 1, 1, 1, 1, 1, 1, 1, 1]
        (scenario_su_oid 2) 150 160 (Some scenario_db) = (Inr r, Some s') \<and>
      submit_status_update scenario_application
        (str_oid [1, 1, 1, 1, 1, 1, 1, 1, 1, 1, 1, 1]) = Inr su \<and>
      su_created_at su = None \<and>
      s' ''statusupdate'' =
        scenario_db ''statusupdate'' @
          [(scenario_su_oid 2, stored_body (EStatusUpdate su) 160)] \<and>
      map_of (stored_body (EStatusUpdate su) 160) ''created_at'' = Some (VTime 160)) \<and>
   (\<exists>r s' su.
      act_on_application ''0102030405060708090a0b0c'' scenario_forward (scenario_su_oid 2) 200
        (Some scenario_db) = (Inr r, Some s') \<and>
      action_status_update ''0102030405060708090a0b0c'' scenario_forward = Inr su \<and>
      su_created_at su = None \<and>
      s' ''statusupdate'' =
        scenario_db ''statusupdate'' @
          [(scenario_su_oid 2, stored_body (EStatusUpdate su) 200)] \<and>
      map_of (stored_body (EStatusUpdate su) 200) ''created_at'' = Some (VTime 200)) \<and>
   scenario_db ''statusupdate'' \<noteq> [] \<and>
   list_all (\<lambda>p. \<exists>t. map_of (stored_doc p) ''created_at'' = Some (VTime t))
     (scenario_db ''statusupdate'') \<and>
   (\<exists>docs. get_timeline ''0102030405060708090a0b0c'' (Some scenario_db) = Inr docs \<and>
      docs \<noteq> [] \<and> list_all (\<lambda>d. \<exists>t. map_of d ''created_at'' = Some (VTime t)) docs)"
proof -
  have sub: "\<exists>r s'. submit_application scenario_application [1, 1, 1, 1, 1, 1, 1, 1, 1, 1, 1, 1]
        (scenario_su_oid 2) 150 160 (Some scenario_db) = (Inr r, Some s')"
    by (simp add: submit_application_Some scenario_db_def ids_def scenario_app_oid_def
        scenario_su_oid_def empty_db_def del: serialize.simps stored_body.simps)
  have ne: "scenario_db ''statusupdate'' \<noteq> []"
    by (simp add: scenario_db_def)
  have tl: "\<exists>docs. get_timeline ''0102030405060708090a0b0c'' (Some scenario_db) = Inr docs \<and>
      docs \<noteq> []"
    by (simp add: scenario_timeline)
  note T = status_update_creation_time [OF reachable_scenario_db,
      where a = scenario_application and i = "[1, 1, 1, 1, 1, 1, 1, 1, 1, 1, 1, 1]"
        and j = "scenario_su_oid 2" and t = 150 and t' = 160
        and app_id = "''0102030405060708090a0b0c''" and ra = scenario_forward
        and k = "scenario_su_oid 2" and u = 200
        and q = "''0102030405060708090a0b0c''"]
  from T sub scenario_forward_act ne tl reachable_scenario_db
  show ?thesis
    unfolding list_all_iff by (metis (no_types, lifting) sum.inject)
qed


end
